theory Spec2Isabelle
  imports Complex_Main "HOL-Library.Char_ord" "HOL-Library.List_Lexorder"
begin

section \<open>The entry points of pathogist.py\<close>

text \<open>
  The file \<^verbatim>\<open>pathogist.py\<close> is the command-line driver of the pipeline: it reads
  files, checks them, calls the library functions of \<^verbatim>\<open>pathogist.io\<close>,
  \<^verbatim>\<open>pathogist.distance\<close> and \<^verbatim>\<open>pathogist.cluster\<close> and writes the result.
  The library functions are parameters of the model (the record \<open>env\<close>); what the
  driver does around them is modelled step by step. Every call that touches the outside
  world is recorded as an event, so that a run is a list of events together with either
  the exception that ended it or its value.
\<close>

subsection \<open>Exceptions, events and runs\<close>

datatype py_error =
    AssertionError
  | ValueError
  | TypeError
  | KeyError
  | IOError
  | YAMLError
  | SystemExit nat
  | LibraryError string

datatype event =
    Log string string
  | Print string
  | CopyFile string string
  | OpenText string
  | YamlLoad
  | ReadCalls string string
  | CreateDistance string
  | OpenDistance string
  | OpenClustering string
  | MatchDistances
  | Correlation real bool
  | Consensus "string list" "string list" "string list"
  | Summarize
  | OutputClustering string

type_synonym 'a run = "event list \<times> (py_error + 'a)"

definition ret :: "'a \<Rightarrow> 'a run" where
  "ret x = ([], Inr x)"

definition raise :: "py_error \<Rightarrow> 'a run" where
  "raise e = ([], Inl e)"

definition emit :: "event \<Rightarrow> unit run" where
  "emit ev = ([ev], Inr ())"

definition lift :: "py_error + 'a \<Rightarrow> 'a run" where
  "lift r = ([], r)"

definition bind_run :: "'a run \<Rightarrow> ('a \<Rightarrow> 'b run) \<Rightarrow> 'b run" where
  "bind_run m f =
     (case snd m of
        Inl e \<Rightarrow> (fst m, Inl e)
      | Inr x \<Rightarrow> (fst m @ fst (f x), snd (f x)))"

text \<open>A statement followed by the rest of the block.\<close>

definition seq :: "unit run \<Rightarrow> 'b run \<Rightarrow> 'b run" where
  "seq m k = bind_run m (\<lambda>_. k)"

definition py_assert :: "bool \<Rightarrow> unit run" where
  "py_assert b = (if b then ret () else raise AssertionError)"

definition logger_info :: "string \<Rightarrow> unit run" where
  "logger_info msg = emit (Log ''INFO'' msg)"

definition logger_debug :: "string \<Rightarrow> unit run" where
  "logger_debug msg = emit (Log ''DEBUG'' msg)"

text \<open>
  The status the interpreter exits with: \<^verbatim>\<open>sys.exit(n)\<close> raises \<^verbatim>\<open>SystemExit(n)\<close>,
  any other exception that nobody catches ends the process with status 1.
\<close>

definition exit_status :: "'a run \<Rightarrow> nat" where
  "exit_status r =
     (case snd r of
        Inr _ \<Rightarrow> 0
      | Inl (SystemExit n) \<Rightarrow> n
      | Inl _ \<Rightarrow> 1)"

subsection \<open>Data frames, dictionaries, strings\<close>

text \<open>
  A pandas data frame as far as the driver looks at it: its column labels
  (\<^verbatim>\<open>.columns.values\<close>), its row labels (\<^verbatim>\<open>.index.values\<close>) and its cells.
\<close>

record 'a frame =
  columns :: "string list"
  index :: "string list"
  cells :: "'a list list"

text \<open>
  A dictionary that remembers insertion order (\<^verbatim>\<open>collections.OrderedDict\<close>, and every
  \<^verbatim>\<open>dict\<close> since Python 3.7) is an association list with distinct keys. Assigning to
  a key that is present replaces the value where it stands; a new key goes to the end.
\<close>

fun dict_set :: "('k \<times> 'v) list \<Rightarrow> 'k \<Rightarrow> 'v \<Rightarrow> ('k \<times> 'v) list" where
  "dict_set [] k v = [(k, v)]"
| "dict_set ((k', v') # d) k v =
     (if k' = k then (k, v) # d else (k', v') # dict_set d k v)"

definition dict_get :: "('k \<times> 'v) list \<Rightarrow> 'k \<Rightarrow> 'v run" where
  "dict_get d k = (case map_of d k of None \<Rightarrow> raise KeyError | Some v \<Rightarrow> ret v)"

text \<open>\<^verbatim>\<open>itertools.combinations(xs, 2)\<close>: the pairs of positions i < j, in order.\<close>

fun combinations2 :: "'a list \<Rightarrow> ('a \<times> 'a) list" where
  "combinations2 [] = []"
| "combinations2 (x # xs) = map (Pair x) xs @ combinations2 xs"

text \<open>
  \<^verbatim>\<open>str.rstrip()\<close> removes trailing white space. A character of the model is a code
  point below 256; the characters below are those of them that Python 3 counts as white
  space (\<^verbatim>\<open>str.isspace\<close>): the ASCII ones, U+0085 and U+00A0. \<^verbatim>\<open>=\<close> is not among
  them.
\<close>

definition is_space :: "char \<Rightarrow> bool" where
  "is_space c =
     (c = CHR '' '' \<or> c = CHR 0x09 \<or> c = CHR 0x0A \<or> c = CHR 0x0B \<or> c = CHR 0x0C \<or>
      c = CHR 0x0D \<or> c = CHR 0x1C \<or> c = CHR 0x1D \<or> c = CHR 0x1E \<or> c = CHR 0x1F \<or>
      c = CHR 0x85 \<or> c = CHR 0xA0)"

definition rstrip :: "string \<Rightarrow> string" where
  "rstrip s = rev (dropWhile is_space (rev s))"

text \<open>
  \<^verbatim>\<open>s.split(c)\<close> for a one-character separator: the pieces between the
  occurrences of \<open>c\<close>, empty pieces included; the empty string gives one empty piece.
\<close>

fun split :: "char \<Rightarrow> string \<Rightarrow> string list" where
  "split c [] = [[]]"
| "split c (x # xs) =
     (if x = c then [] # split c xs
      else (case split c xs of
              [] \<Rightarrow> [[x]]
            | p # ps \<Rightarrow> (x # p) # ps))"

text \<open>
  \<^verbatim>\<open>a, b = xs\<close>: unpacking into two names raises \<^verbatim>\<open>ValueError\<close> unless the list
  has exactly two elements.
\<close>

fun unpack2 :: "'a list \<Rightarrow> ('a \<times> 'a) run" where
  "unpack2 [a, b] = ret (a, b)"
| "unpack2 _ = raise ValueError"

text \<open>A \<^verbatim>\<open>for\<close> loop whose body returns nothing.\<close>

fun for_each :: "('a \<Rightarrow> unit run) \<Rightarrow> 'a list \<Rightarrow> unit run" where
  "for_each body [] = ret ()"
| "for_each body (x # xs) = seq (body x) (for_each body xs)"

subsection \<open>The command line and the library\<close>

text \<open>The \<^verbatim>\<open>argparse\<close> namespace: the arguments the three modelled subcommands read.\<close>

record param =
  new_config :: bool
  config :: string
  distance_matrix :: string
  threshold :: real
  all_constraints :: bool
  distance_matrices :: string
  clusterings :: string
  fine_clusterings :: string
  output_path :: string

text \<open>
  The configuration \<^verbatim>\<open>yaml.load\<close> returns: a dictionary, each of whose keys may be
  missing. \<^verbatim>\<open>distances\<close>, \<^verbatim>\<open>genotyping\<close> and \<^verbatim>\<open>thresholds\<close> are dictionaries
  themselves, \<^verbatim>\<open>fine_clusterings\<close> is a list.
\<close>

record config =
  cfg_distances :: "(string \<times> string) list option"
  cfg_genotyping :: "(string \<times> string) list option"
  cfg_thresholds :: "(string \<times> real) list option"
  cfg_fine_clusterings :: "string list option"
  cfg_all_constraints :: "bool option"
  cfg_output :: "string option"

definition key :: "'a option \<Rightarrow> 'a run" where
  "key v = (case v of None \<Rightarrow> raise KeyError | Some x \<Rightarrow> ret x)"

text \<open>
  What the driver calls and does not define: the file system, \<^verbatim>\<open>yaml\<close>,
  \<^verbatim>\<open>pkg_resources\<close>, \<^verbatim>\<open>shutil\<close> and the modules \<^verbatim>\<open>pathogist.io\<close>,
  \<^verbatim>\<open>pathogist.distance\<close> and \<^verbatim>\<open>pathogist.cluster\<close>. Each may raise. \<open>'k\<close> is the
  type of genotyping calls.
\<close>

record 'k env =
  open_text :: "string \<Rightarrow> py_error + string list"
  yaml_load :: "string list \<Rightarrow> py_error + config"
  resource_filename :: "string \<Rightarrow> py_error + string"
  copyfile :: "string \<Rightarrow> string \<Rightarrow> py_error + unit"
  read_snp_calls :: "string \<Rightarrow> py_error + 'k"
  read_mlst_calls :: "string \<Rightarrow> py_error + 'k"
  read_cnv_calls :: "string \<Rightarrow> py_error + 'k"
  create_snp_distance_matrix :: "'k \<Rightarrow> py_error + real frame"
  create_mlst_distance_matrix :: "'k \<Rightarrow> py_error + real frame"
  create_cnv_distance_matrix :: "'k \<Rightarrow> py_error + real frame"
  match_distance_matrices ::
    "(string \<times> real frame) list \<Rightarrow> py_error + (string \<times> real frame) list"
  open_distance_file :: "string \<Rightarrow> py_error + real frame"
  open_clustering_file :: "string \<Rightarrow> py_error + int frame"
  cluster_correlation :: "real frame \<Rightarrow> real \<Rightarrow> bool \<Rightarrow> py_error + int frame"
  cluster_consensus ::
    "(string \<times> real frame) list \<Rightarrow> (string \<times> int frame) list \<Rightarrow> string list
       \<Rightarrow> py_error + int frame"
  summarize_clusterings ::
    "int frame \<Rightarrow> (string \<times> int frame) list \<Rightarrow> py_error + int frame"
  output_clustering :: "int frame \<Rightarrow> string \<Rightarrow> py_error + unit"

text \<open>\<^verbatim>\<open>with open(path,'r') as file\<close>: the lines of the file, line ends included.\<close>

definition open_lines :: "'k env \<Rightarrow> string \<Rightarrow> string list run" where
  "open_lines env path = seq (emit (OpenText path)) (lift (open_text env path))"

subsection \<open>The subcommand consensus\<close>

text \<open>
  Lines 114--117 and 132--135: one \<^verbatim>\<open>name=path\<close> entry per line. The two loops differ
  only in the function that opens the path, which is the argument \<open>opener\<close>.
\<close>

fun read_batch ::
  "(string \<Rightarrow> 'a run) \<Rightarrow> string list \<Rightarrow> (string \<times> 'a) list \<Rightarrow> (string \<times> 'a) list run" where
  "read_batch opener [] d = ret d"
| "read_batch opener (line # rest) d =
     bind_run (unpack2 (split CHR ''='' (rstrip line))) (\<lambda>(name, path).
     bind_run (opener path) (\<lambda>m.
     read_batch opener rest (dict_set d name m)))"

definition open_distance :: "'k env \<Rightarrow> string \<Rightarrow> real frame run" where
  "open_distance env path = seq (emit (OpenDistance path)) (lift (open_distance_file env path))"

definition open_clustering :: "'k env \<Rightarrow> string \<Rightarrow> int frame run" where
  "open_clustering env path =
     seq (emit (OpenClustering path)) (lift (open_clustering_file env path))"

text \<open>
  Lines 119--127 and 137--145, the body of the loop. The source runs over the pairs of
  keys and looks each key up; the keys of a dictionary are distinct, so this is the loop
  over the pairs of entries. The row labels of the second list are read from
  \<open>cluster1\<close>, as in the source.
\<close>

definition check_pair :: "(string \<times> 'a frame) \<times> (string \<times> 'a frame) \<Rightarrow> unit run" where
  "check_pair p =
     (case p of (cluster1, cluster2) \<Rightarrow>
        (let columns1 = sort (columns (snd cluster1));
             columns2 = sort (columns (snd cluster2))
         in seq (py_assert (length columns1 = length columns2))
           (seq (py_assert (columns1 = columns2))
             (let rows1 = sort (index (snd cluster1));
                  rows2 = sort (index (snd cluster1))
              in seq (py_assert (length rows1 = length rows2))
                     (py_assert (rows1 = rows2))))))"

definition check_samples :: "(string \<times> 'a frame) list \<Rightarrow> unit run" where
  "check_samples d = for_each check_pair (combinations2 d)"

definition consensus :: "'k env \<Rightarrow> param \<Rightarrow> unit run" where
  "consensus env p =
     seq (logger_info ''Getting distance matrices ...'')
    (bind_run (open_lines env (distance_matrices p)) (\<lambda>file.
     bind_run (read_batch (open_distance env) file []) (\<lambda>distances.
     seq (check_samples distances)
    (seq (logger_info ''Getting clusterings ...'')
    (bind_run (open_lines env (clusterings p)) (\<lambda>file.
     bind_run (read_batch (open_clustering env) file []) (\<lambda>clusterings.
     seq (check_samples clusterings)
    (seq (logger_info ''Getting other metadata ...'')
    (bind_run (open_lines env (fine_clusterings p)) (\<lambda>file.
     let fine_clusterings = map rstrip file in
     seq (logger_info ''Creating and solving consensus clustering problem ...'')
    (seq (emit (Consensus (map fst distances) (map fst clusterings) fine_clusterings))
    (bind_run (lift (cluster_consensus env distances clusterings fine_clusterings))
       (\<lambda>consensus_clustering.
     seq (emit Summarize)
    (bind_run (lift (summarize_clusterings env consensus_clustering clusterings))
       (\<lambda>summary_clustering.
     seq (logger_info ''Writing clusterings to file ...'')
    (seq (emit (OutputClustering (output_path p)))
         (lift (output_clustering env summary_clustering (output_path p)))))))))))))))))))"

subsection \<open>The subcommand correlation\<close>

definition correlation :: "'k env \<Rightarrow> param \<Rightarrow> unit run" where
  "correlation env p =
     seq (logger_debug ''Opening distance matrix...'')
    (bind_run (open_distance env (distance_matrix p)) (\<lambda>distance_matrix.
     seq (logger_debug ''Creating and solving correlation clustering problem ... '')
    (seq (emit (Correlation (threshold p) (all_constraints p)))
    (bind_run (lift (cluster_correlation env distance_matrix (threshold p) (all_constraints p)))
       (\<lambda>clustering.
     seq (logger_debug ''Outputting clustering...'')
    (seq (emit (OutputClustering (output_path p)))
         (lift (output_clustering env clustering (output_path p)))))))))"

subsection \<open>The subcommand all\<close>

text \<open>Lines 28--32: write a blank configuration file.\<close>

definition write_new_config :: "'k env \<Rightarrow> param \<Rightarrow> unit run" where
  "write_new_config env p =
     bind_run (lift (resource_filename env ''pathogist/resources/blank_config.yaml''))
       (\<lambda>src_path.
     seq (emit (CopyFile src_path (config p)))
    (seq (lift (copyfile env src_path (config p)))
         (emit (Print (''New configuration file written at '' @ config p)))))"

text \<open>
  Lines 34--39: open and parse the configuration file. A \<^verbatim>\<open>yaml.YAMLError\<close> is caught:
  the class is printed and the process exits with status 1. Any other exception is not
  caught.
\<close>

definition load_config :: "'k env \<Rightarrow> param \<Rightarrow> config run" where
  "load_config env p =
     bind_run (open_lines env (config p)) (\<lambda>config_stream.
     seq (emit YamlLoad)
       (case yaml_load env config_stream of
          Inr c \<Rightarrow> ret c
        | Inl e \<Rightarrow>
            (if e = YAMLError
             then seq (emit (Print ''<class 'yaml.error.YAMLError'>'')) (raise (SystemExit 1))
             else raise e)))"

text \<open>Lines 42--51: the four key sets and the three assertions about them.\<close>

definition check_config :: "config \<Rightarrow> unit run" where
  "check_config c =
     bind_run (key (cfg_distances c)) (\<lambda>distances.
     bind_run (key (cfg_genotyping c)) (\<lambda>genotyping.
     bind_run (key (cfg_thresholds c)) (\<lambda>thresholds.
     bind_run (key (cfg_fine_clusterings c)) (\<lambda>fine_clusterings.
     let distance_keys_set = set (map fst distances);
         genotyping_keys_set = set (map fst genotyping);
         threshold_keys_set = set (map fst thresholds);
         fine_clusterings_set = set fine_clusterings
     in seq (py_assert (distance_keys_set \<inter> genotyping_keys_set = {}))
       (seq (py_assert (threshold_keys_set = distance_keys_set \<union> genotyping_keys_set))
            (py_assert (fine_clusterings_set \<subseteq> distance_keys_set \<union> genotyping_keys_set)))))))"

text \<open>Lines 55--68: the two tables of functions, keyed by the kind of genotyping data.\<close>

definition read_genotyping_calls ::
  "'k env \<Rightarrow> (string \<times> (string \<Rightarrow> py_error + 'k)) list" where
  "read_genotyping_calls env =
     [(''SNP'', read_snp_calls env), (''MLST'', read_mlst_calls env),
      (''CNV'', read_cnv_calls env)]"

definition create_genotype_distance ::
  "'k env \<Rightarrow> (string \<times> ('k \<Rightarrow> py_error + real frame)) list" where
  "create_genotype_distance env =
     [(''SNP'', create_snp_distance_matrix env), (''MLST'', create_mlst_distance_matrix env),
      (''CNV'', create_cnv_distance_matrix env)]"

text \<open>Lines 59--60.\<close>

fun read_calls :: "'k env \<Rightarrow> (string \<times> string) list \<Rightarrow> (string \<times> 'k) list
    \<Rightarrow> (string \<times> 'k) list run" where
  "read_calls env [] calls = ret calls"
| "read_calls env ((genotype, path) # rest) calls =
     bind_run (dict_get (read_genotyping_calls env) genotype) (\<lambda>reader.
     seq (emit (ReadCalls genotype path))
    (bind_run (lift (reader path)) (\<lambda>c.
     read_calls env rest (dict_set calls genotype c))))"

text \<open>Lines 67--68.\<close>

fun create_distances :: "'k env \<Rightarrow> (string \<times> 'k) list \<Rightarrow> (string \<times> real frame) list
    \<Rightarrow> (string \<times> real frame) list run" where
  "create_distances env [] distances = ret distances"
| "create_distances env ((genotype, c) # rest) distances =
     bind_run (dict_get (create_genotype_distance env) genotype) (\<lambda>create.
     seq (emit (CreateDistance genotype))
    (bind_run (lift (create c)) (\<lambda>m.
     create_distances env rest (dict_set distances genotype m))))"

text \<open>Lines 72--73.\<close>

fun read_distances :: "'k env \<Rightarrow> (string \<times> string) list \<Rightarrow> (string \<times> real frame) list
    \<Rightarrow> (string \<times> real frame) list run" where
  "read_distances env [] distances = ret distances"
| "read_distances env ((genotype, path) # rest) distances =
     bind_run (open_distance env path) (\<lambda>m.
     read_distances env rest (dict_set distances genotype m))"

text \<open>
  Line 78 builds a \<^verbatim>\<open>set\<close> from the list of the matrices' sample sets. Building a set
  hashes every element, and Python's \<^verbatim>\<open>set\<close> objects have no hash: with one element
  or more in the list, the call raises \<^verbatim>\<open>TypeError: unhashable type: 'set'\<close>. Only
  the empty list gives a set, the empty one.
\<close>

definition py_set_of_sets :: "'a set list \<Rightarrow> 'a set set run" where
  "py_set_of_sets xs = (case xs of [] \<Rightarrow> ret {} | _ # _ \<Rightarrow> raise TypeError)"

text \<open>Lines 76--81.\<close>

definition match_if_needed ::
  "'k env \<Rightarrow> (string \<times> real frame) list \<Rightarrow> (string \<times> real frame) list run" where
  "match_if_needed env distances =
     (let distance_matrix_samples = map (\<lambda>entry. set (columns (snd entry))) distances
      in bind_run (py_set_of_sets distance_matrix_samples) (\<lambda>s.
         if card s > 1
         then seq (logger_info ''Warning: samples differ across the distance matrices.'')
             (seq (logger_info ''Matching distance matrices ...'')
             (seq (emit MatchDistances)
                  (lift (match_distance_matrices env distances))))
         else ret distances))"

text \<open>Lines 91--95.\<close>

fun cluster_all :: "'k env \<Rightarrow> (string \<times> real) list \<Rightarrow> bool \<Rightarrow> (string \<times> real frame) list
    \<Rightarrow> (string \<times> int frame) list \<Rightarrow> (string \<times> int frame) list run" where
  "cluster_all env thresholds flag [] acc = ret acc"
| "cluster_all env thresholds flag ((genotype, m) # rest) acc =
     seq (logger_info (''Clustering '' @ genotype @ '' ...''))
    (bind_run (dict_get thresholds genotype) (\<lambda>t.
     seq (emit (Correlation t flag))
    (bind_run (lift (cluster_correlation env m t flag)) (\<lambda>c.
     cluster_all env thresholds flag rest (dict_set acc genotype c)))))"

text \<open>Lines 53--100: the pipeline, once the configuration has passed the assertions.\<close>

definition run_pipeline :: "'k env \<Rightarrow> config \<Rightarrow> unit run" where
  "run_pipeline env c =
     seq (logger_info ''Reading genotyping calls ...'')
    (bind_run (key (cfg_genotyping c)) (\<lambda>genotyping.
     bind_run (read_calls env genotyping []) (\<lambda>calls.
     seq (logger_info ''Creating distance matrices ...'')
    (bind_run (create_distances env calls []) (\<lambda>distances.
     seq (logger_info ''Reading distance matrices ...'')
    (bind_run (key (cfg_distances c)) (\<lambda>paths.
     bind_run (read_distances env paths distances) (\<lambda>distances.
     bind_run (match_if_needed env distances) (\<lambda>distances.
     bind_run (key (cfg_thresholds c)) (\<lambda>thresholds.
     bind_run (key (cfg_all_constraints c)) (\<lambda>flag.
     bind_run (key (cfg_output c)) (\<lambda>output_path.
     bind_run (key (cfg_fine_clusterings c)) (\<lambda>fine_clusterings.
     bind_run (cluster_all env thresholds flag distances []) (\<lambda>clusterings.
     seq (logger_info ''Performing consensus clustering ...'')
    (seq (emit (Consensus (map fst distances) (map fst clusterings) fine_clusterings))
    (bind_run (lift (cluster_consensus env distances clusterings fine_clusterings))
       (\<lambda>consensus_clustering.
     seq (emit Summarize)
    (bind_run (lift (summarize_clusterings env consensus_clustering clusterings))
       (\<lambda>summary_clustering.
     seq (logger_info ''Writing clusterings to file ...'')
    (seq (emit (OutputClustering output_path))
         (lift (output_clustering env summary_clustering output_path))))))))))))))))))))))"

definition run_all :: "'k env \<Rightarrow> param \<Rightarrow> unit run" where
  "run_all env p =
     (if new_config p then write_new_config env p
      else bind_run (load_config env p) (\<lambda>c.
           seq (check_config c) (run_pipeline env c)))"

text \<open>
  The events that read genotyping calls, build or read a distance matrix, compute a
  clustering or write one.
\<close>

fun computes :: "event \<Rightarrow> bool" where
  "computes (ReadCalls g path) = True"
| "computes (CreateDistance g) = True"
| "computes (OpenDistance path) = True"
| "computes (OpenClustering path) = True"
| "computes MatchDistances = True"
| "computes (Correlation t flag) = True"
| "computes (Consensus ds cs fs) = True"
| "computes Summarize = True"
| "computes (OutputClustering path) = True"
| "computes _ = False"

text \<open>The events that read the configuration file.\<close>

fun reads_config :: "event \<Rightarrow> bool" where
  "reads_config (OpenText path) = True"
| "reads_config YamlLoad = True"
| "reads_config _ = False"

text \<open>
  The elements of a list in the order of their first occurrence, those of \<open>seen\<close> left
  out: the order of the keys of a dictionary filled by assignments in that order.
\<close>

fun first_seen :: "'a list \<Rightarrow> 'a list \<Rightarrow> 'a list" where
  "first_seen seen [] = []"
| "first_seen seen (x # xs) =
     (if x \<in> set seen then first_seen seen xs else x # first_seen (x # seen) xs)"

section \<open>The optimization engine, modelled from the specification\<close>

text \<open>
  The module \<^verbatim>\<open>pathogist.cluster\<close>, whose functions \<^verbatim>\<open>correlation\<close> and
  \<^verbatim>\<open>consensus\<close> the driver calls, is not among the source files. The definitions of
  this section follow sections 3 and 4.2 to 4.4 of the specification: the data model,
  the optimization model (variables, objective, constraints), a backend that solves the
  model exactly and breaks ties by a fixed order, and the decoding of a solution into a
  partition.
\<close>

subsection \<open>Data model (section 3)\<close>

text \<open>
  Modelled from the spec: the dissimilarity matrix that \<^verbatim>\<open>pathogist.cluster\<close> takes, a
  value for every pair of samples of a sample set.
\<close>

record dissimilarity_matrix =
  matrix_samples :: "string list"
  dissimilarity :: "string \<Rightarrow> string \<Rightarrow> real"

text \<open>
  Modelled from the spec: the partition that \<^verbatim>\<open>pathogist.cluster\<close> takes and returns, a
  cluster label for every sample of a sample set.
\<close>

record partition =
  partition_samples :: "string list"
  label :: "string \<Rightarrow> nat"

text \<open>
  Modelled from the spec: for a partition of \<^verbatim>\<open>pathogist.cluster\<close>, two samples are
  co-clustered iff they map to the same label.
\<close>

definition co_clustered :: "partition \<Rightarrow> string \<Rightarrow> string \<Rightarrow> bool" where
  "co_clustered P i j = (label P i = label P j)"

text \<open>
  Modelled from the spec: the sample sets of \<^verbatim>\<open>pathogist.cluster\<close> are unordered and
  without repetition; where the solver needs an order, it is the lexicographic one.
\<close>

definition sample_list :: "string list \<Rightarrow> string list" where
  "sample_list xs = sorted_list_of_set (set xs)"

text \<open>
  Modelled from the spec: the clusters of a partition of \<^verbatim>\<open>pathogist.cluster\<close>, as
  sets of samples.
\<close>

definition clusters :: "partition \<Rightarrow> string set set" where
  "clusters P =
     (\<lambda>i. set (filter (co_clustered P i) (partition_samples P))) ` set (partition_samples P)"


text \<open>
  Modelled from the spec: the errors with which a solver of \<^verbatim>\<open>pathogist.cluster\<close>
  fails (section 7): the three kinds of solver error, the conflict of hard constraints
  and the violated precondition.
\<close>

datatype solver_error =
    Infeasible
  | NonConvergence
  | Timeout
  | ConstraintConflict
  | Precondition

subsection \<open>The optimization model (section 4.2)\<close>

text \<open>
  Modelled from the spec: the decision variables of \<^verbatim>\<open>pathogist.cluster\<close>, one 0/1
  variable \<open>same(i, j)\<close> for every unordered pair of samples. A solution is the list of
  the pairs whose variable is 1, a sublist of the list of all pairs.
\<close>

type_synonym solution = "(string \<times> string) list"

text \<open>
  Modelled from the spec: the value of the variable \<open>same(i, j)\<close> of
  \<^verbatim>\<open>pathogist.cluster\<close> in a solution, as a truth value.
\<close>

definition same :: "solution \<Rightarrow> string \<Rightarrow> string \<Rightarrow> bool" where
  "same x i j = ((i, j) \<in> set x \<or> (j, i) \<in> set x)"

text \<open>
  Modelled from the spec: the value of the variable \<open>same(i, j)\<close> of
  \<^verbatim>\<open>pathogist.cluster\<close> in a solution, as the number 0 or 1.
\<close>

definition same_value :: "solution \<Rightarrow> string \<Rightarrow> string \<Rightarrow> int" where
  "same_value x i j = (if same x i j then 1 else 0)"

text \<open>
  Modelled from the spec: in the model of \<^verbatim>\<open>pathogist.cluster.correlation\<close> a pair
  is similar when its value is below the threshold, dissimilar when it is at or above it.
\<close>

definition similar :: "dissimilarity_matrix \<Rightarrow> real \<Rightarrow> string \<Rightarrow> string \<Rightarrow> bool" where
  "similar m \<theta> i j = (dissimilarity m i j < \<theta>)"

text \<open>
  Modelled from the spec: the penalty of a pair in the objective of
  \<^verbatim>\<open>pathogist.cluster.correlation\<close>. A similar pair costs \<open>|value - threshold|\<close> when
  it is separated, a dissimilar pair costs the same when it is joined.
\<close>

definition penalty :: "dissimilarity_matrix \<Rightarrow> real \<Rightarrow> solution \<Rightarrow> string \<times> string \<Rightarrow> real" where
  "penalty m \<theta> x p =
     (if similar m \<theta> (fst p) (snd p)
      then (if same x (fst p) (snd p) then 0 else \<bar>dissimilarity m (fst p) (snd p) - \<theta>\<bar>)
      else (if same x (fst p) (snd p) then \<bar>dissimilarity m (fst p) (snd p) - \<theta>\<bar> else 0))"

text \<open>
  Modelled from the spec: the objective of \<^verbatim>\<open>pathogist.cluster.correlation\<close>, the
  sum of the penalties of the pairs, to be minimized.
\<close>

definition objective :: "dissimilarity_matrix \<Rightarrow> real \<Rightarrow> string list \<Rightarrow> solution \<Rightarrow> real" where
  "objective m \<theta> s x = sum_list (map (penalty m \<theta> x) (combinations2 s))"

text \<open>
  Modelled from the spec: the triples \<open>(i, j, k)\<close> of samples that the transitivity
  constraints of \<^verbatim>\<open>pathogist.cluster\<close> range over, every triple of three different
  samples.
\<close>

definition triples :: "string list \<Rightarrow> (string \<times> string \<times> string) list" where
  "triples s =
     concat (map (\<lambda>i. concat (map (\<lambda>j. concat (map (\<lambda>k.
       if i \<noteq> j \<and> j \<noteq> k \<and> i \<noteq> k then [(i, j, k)] else []) s)) s)) s)"

text \<open>
  Modelled from the spec: the transitivity constraint of \<^verbatim>\<open>pathogist.cluster\<close> for a
  triple, \<open>same(i,j) + same(j,k) - same(i,k) \<le> 1\<close> and its two rotations.
\<close>

definition transitivity :: "solution \<Rightarrow> string \<times> string \<times> string \<Rightarrow> bool" where
  "transitivity x t =
     (case t of (i, j, k) \<Rightarrow>
        same_value x i j + same_value x j k - same_value x i k \<le> 1 \<and>
        same_value x j k + same_value x k i - same_value x j i \<le> 1 \<and>
        same_value x k i + same_value x i j - same_value x k j \<le> 1)"

text \<open>
  Modelled from the spec: the triples that \<^verbatim>\<open>pathogist.cluster.correlation\<close> still
  constrains without the all-constraints flag, those whose pairs are not all of one sign
  relative to the threshold (not all similar and not all dissimilar).
\<close>

definition mixed :: "dissimilarity_matrix \<Rightarrow> real \<Rightarrow> string \<times> string \<times> string \<Rightarrow> bool" where
  "mixed m \<theta> t =
     (case t of (i, j, k) \<Rightarrow>
        \<not> (similar m \<theta> i j = similar m \<theta> j k \<and> similar m \<theta> j k = similar m \<theta> i k))"

text \<open>
  Modelled from the spec: the constraint density of \<^verbatim>\<open>pathogist.cluster.correlation\<close>.
  With the all-constraints flag every triple is constrained, without it only the mixed
  ones.
\<close>

definition constrained_triples ::
  "dissimilarity_matrix \<Rightarrow> real \<Rightarrow> bool \<Rightarrow> string list \<Rightarrow> (string \<times> string \<times> string) list" where
  "constrained_triples m \<theta> flag s =
     (if flag then triples s else filter (mixed m \<theta>) (triples s))"

text \<open>
  Modelled from the spec: the 0/1 solutions the backend of \<^verbatim>\<open>pathogist.cluster\<close>
  searches, every assignment of the variables, in a fixed order.
\<close>

definition candidates :: "string list \<Rightarrow> solution list" where
  "candidates s = subseqs (combinations2 s)"

text \<open>
  Modelled from the spec: the solutions that satisfy the constraints of the model of
  \<^verbatim>\<open>pathogist.cluster.correlation\<close>, in the order of the candidates.
\<close>

definition feasible ::
  "dissimilarity_matrix \<Rightarrow> real \<Rightarrow> bool \<Rightarrow> string list \<Rightarrow> solution list" where
  "feasible m \<theta> flag s =
     filter (\<lambda>x. list_all (transitivity x) (constrained_triples m \<theta> flag s)) (candidates s)"

subsection \<open>Decoding a solution (section 4.3)\<close>

text \<open>
  Modelled from the spec: the decoding step of \<^verbatim>\<open>pathogist.cluster\<close>. The pairs with
  \<open>same(i,j) = 1\<close> define connected components over the sample set. One step adds to a
  list of samples the samples joined to one of them.
\<close>

definition grow :: "solution \<Rightarrow> string list \<Rightarrow> string list \<Rightarrow> string list" where
  "grow x s c = filter (\<lambda>t. t \<in> set c \<or> list_ex (\<lambda>u. same x u t) c) s"

text \<open>
  Modelled from the spec: the connected component of a sample in the decoding step of
  \<^verbatim>\<open>pathogist.cluster\<close>, reached by as many steps as there are samples.
\<close>

definition component :: "solution \<Rightarrow> string list \<Rightarrow> string \<Rightarrow> string list" where
  "component x s i = (grow x s ^^ length s) [i]"

text \<open>
  Modelled from the spec: the partition \<^verbatim>\<open>pathogist.cluster\<close> decodes from a solution.
  Each connected component becomes one cluster label, here the position of the first
  sample of the component.
\<close>

definition decode :: "string list \<Rightarrow> solution \<Rightarrow> partition" where
  "decode s x =
     \<lparr>partition_samples = s,
      label = (\<lambda>i. length (takeWhile (\<lambda>t. t \<notin> set (component x s i)) s))\<rparr>"

subsection \<open>The correlation-clustering solver (section 4.3)\<close>

text \<open>
  Modelled from the spec: \<^verbatim>\<open>pathogist.cluster.correlation\<close>. The solver builds the
  model of section 4.2 and has a backend minimize the objective over the 0/1 solutions
  that satisfy the constraints; here the backend is exact, and among the solutions of
  least objective it returns the first in the order of the candidates. A model without a
  solution is a solver error.
\<close>

definition correlation_clustering_solve ::
  "dissimilarity_matrix \<Rightarrow> real \<Rightarrow> bool \<Rightarrow> solver_error + partition" where
  "correlation_clustering_solve m \<theta> flag =
     (let s = sample_list (matrix_samples m);
          xs = feasible m \<theta> flag s
      in if xs = [] then Inl Infeasible
         else Inr (decode s (arg_min_list (objective m \<theta> s) xs)))"

subsection \<open>The consensus-clustering solver (section 4.4)\<close>

text \<open>
  Modelled from the spec: the penalty of a pair in the objective of
  \<^verbatim>\<open>pathogist.cluster.consensus\<close>, the sum, over the modalities that supply a
  partition, of the modality's weight where the solution disagrees with the modality's
  partition on the pair. The weight a modality carries is the parameter \<open>w\<close>, a
  function of the modality's name.
\<close>

definition disagreement ::
  "(string \<Rightarrow> real) \<Rightarrow> (string \<times> partition) list \<Rightarrow> solution \<Rightarrow> string \<times> string \<Rightarrow> real" where
  "disagreement w ps x p =
     sum_list (map (\<lambda>e. if same x (fst p) (snd p) = co_clustered (snd e) (fst p) (snd p)
                         then 0 else w (fst e)) ps)"

text \<open>
  Modelled from the spec: the objective of \<^verbatim>\<open>pathogist.cluster.consensus\<close>, the sum of
  the penalties of the pairs.
\<close>

definition consensus_objective ::
  "(string \<Rightarrow> real) \<Rightarrow> (string \<times> partition) list \<Rightarrow> string list \<Rightarrow> solution \<Rightarrow> real" where
  "consensus_objective w ps s x = sum_list (map (disagreement w ps x) (combinations2 s))"

text \<open>
  Modelled from the spec: the hard constraint of \<^verbatim>\<open>pathogist.cluster.consensus\<close> for
  one fine partition and one pair. A pair the partition separates must not be joined; a
  pair it co-clusters is not constrained.
\<close>

definition keeps_apart :: "partition \<Rightarrow> solution \<Rightarrow> string \<times> string \<Rightarrow> bool" where
  "keeps_apart P x p = (co_clustered P (fst p) (snd p) \<or> \<not> same x (fst p) (snd p))"

text \<open>
  Modelled from the spec: the hard constraints of \<^verbatim>\<open>pathogist.cluster.consensus\<close>,
  those of every modality named in the list of fine modalities, for every pair.
\<close>

definition hard_constraints ::
  "(string \<times> partition) list \<Rightarrow> string list \<Rightarrow> string list \<Rightarrow> solution \<Rightarrow> bool" where
  "hard_constraints ps fine s x =
     list_all (\<lambda>e. list_all (keeps_apart (snd e) x) (combinations2 s))
       (filter (\<lambda>e. fst e \<in> set fine) ps)"

text \<open>
  Modelled from the spec: the sample set of a call of \<^verbatim>\<open>pathogist.cluster.consensus\<close>,
  that of the first partition.
\<close>

definition common_samples :: "(string \<times> partition) list \<Rightarrow> string list" where
  "common_samples ps =
     (case ps of [] \<Rightarrow> [] | e # _ \<Rightarrow> sample_list (partition_samples (snd e)))"

text \<open>
  Modelled from the spec: the precondition of \<^verbatim>\<open>pathogist.cluster.consensus\<close>. All
  inputs, partitions and matrices, are over one sample set.
\<close>

definition aligned ::
  "(string \<times> dissimilarity_matrix) list \<Rightarrow> (string \<times> partition) list \<Rightarrow> bool" where
  "aligned ms ps =
     (list_all (\<lambda>e. set (partition_samples (snd e)) = set (common_samples ps)) ps \<and>
      list_all (\<lambda>e. set (matrix_samples (snd e)) = set (common_samples ps)) ms)"

text \<open>
  Modelled from the spec: \<^verbatim>\<open>pathogist.cluster.consensus\<close>. Inputs over different
  sample sets are a precondition error. The combined model has the hard constraints of
  the fine modalities and the transitivity constraints of every triple, and is solved by
  the backend of the correlation-clustering solver. Hard constraints that no solution
  satisfies are a constraint conflict.
\<close>

definition consensus_clustering_solve ::
  "(string \<Rightarrow> real) \<Rightarrow> (string \<times> dissimilarity_matrix) list \<Rightarrow> (string \<times> partition) list
     \<Rightarrow> string list \<Rightarrow> solver_error + partition" where
  "consensus_clustering_solve w ms ps fine =
     (if \<not> aligned ms ps then Inl Precondition
      else
        (let s = common_samples ps;
             hard = filter (hard_constraints ps fine s) (candidates s);
             xs = filter (\<lambda>x. list_all (transitivity x) (triples s)) hard
         in if hard = [] then Inl ConstraintConflict
            else if xs = [] then Inl Infeasible
            else Inr (decode s (arg_min_list (consensus_objective w ps s) xs))))"

section \<open>Example inputs\<close>

text \<open>A library in which every call fails; the examples replace what they need.\<close>

definition failing_env :: "unit env" where
  "failing_env =
     \<lparr>open_text = (\<lambda>path. Inl IOError),
      yaml_load = (\<lambda>text. Inl YAMLError),
      resource_filename = (\<lambda>name. Inl IOError),
      copyfile = (\<lambda>src dst. Inl IOError),
      read_snp_calls = (\<lambda>path. Inl IOError),
      read_mlst_calls = (\<lambda>path. Inl IOError),
      read_cnv_calls = (\<lambda>path. Inl IOError),
      create_snp_distance_matrix = (\<lambda>calls. Inl (LibraryError ''distance'')),
      create_mlst_distance_matrix = (\<lambda>calls. Inl (LibraryError ''distance'')),
      create_cnv_distance_matrix = (\<lambda>calls. Inl (LibraryError ''distance'')),
      match_distance_matrices = (\<lambda>distances. Inl (LibraryError ''distance'')),
      open_distance_file = (\<lambda>path. Inl IOError),
      open_clustering_file = (\<lambda>path. Inl IOError),
      cluster_correlation = (\<lambda>m t flag. Inl (LibraryError ''cluster'')),
      cluster_consensus = (\<lambda>ds cs fs. Inl (LibraryError ''cluster'')),
      summarize_clusterings = (\<lambda>c cs. Inl (LibraryError ''cluster'')),
      output_clustering = (\<lambda>c path. Inl IOError)\<rparr>"

text \<open>A square matrix with the same row and column labels, every cell \<open>v\<close>.\<close>

definition square :: "string list \<Rightarrow> 'a \<Rightarrow> 'a frame" where
  "square labels v =
     \<lparr>columns = labels, index = labels,
      cells = replicate (length labels) (replicate (length labels) v)\<rparr>"

text \<open>
  A clustering file in the assignment format: one row per sample, one column
  \<^verbatim>\<open>Cluster\<close>; here every sample is in cluster 1.
\<close>

definition assignment :: "string list \<Rightarrow> int frame" where
  "assignment labels =
     \<lparr>columns = [''Cluster''], index = labels, cells = map (\<lambda>s. [1]) labels\<rparr>"

text \<open>
  The files of a consensus run: two distance matrices over the samples A and B, the
  clustering of SNP over A and B, the clustering of MLST over the samples \<open>others\<close>, and a
  list of fine clusterings with the lines \<open>fine\<close>.
\<close>

definition consensus_env :: "string list \<Rightarrow> string list \<Rightarrow> unit env" where
  "consensus_env fine others = failing_env
     \<lparr>open_text := (\<lambda>path.
        if path = ''distances.txt''
          then Inr [''SNP=snp.tsv'' @ [CHR 0x0A], ''MLST=mlst.tsv'' @ [CHR 0x0A]]
        else if path = ''clusterings.txt''
          then Inr [''SNP=snp_clusters.tsv'' @ [CHR 0x0A],
                    ''MLST=mlst_clusters.tsv'' @ [CHR 0x0A]]
        else if path = ''fine.txt'' then Inr fine
        else Inl IOError),
      open_distance_file := (\<lambda>path. Inr (square [''A'', ''B''] 0)),
      open_clustering_file := (\<lambda>path.
        if path = ''snp_clusters.tsv'' then Inr (assignment [''A'', ''B''])
        else Inr (assignment others)),
      cluster_consensus := (\<lambda>ds cs fs. Inr (assignment [''A'', ''B''])),
      summarize_clusterings := (\<lambda>c cs. Inr c),
      output_clustering := (\<lambda>c path. Inr ())\<rparr>"

definition consensus_param :: param where
  "consensus_param =
     \<lparr>new_config = False, config = [], distance_matrix = [], threshold = 0,
      all_constraints = False, distance_matrices = ''distances.txt'',
      clusterings = ''clusterings.txt'', fine_clusterings = ''fine.txt'',
      output_path = ''out.tsv''\<rparr>"

text \<open>
  A pipeline run: the configuration file parses to \<open>c\<close>, every distance file holds a
  matrix over the samples A and B, and the library's clustering functions succeed.
\<close>

definition pipeline_env :: "config \<Rightarrow> unit env" where
  "pipeline_env c = failing_env
     \<lparr>open_text := (\<lambda>path. Inr []),
      yaml_load := (\<lambda>text. Inr c),
      resource_filename := (\<lambda>name. Inr (''/pkg/'' @ name)),
      copyfile := (\<lambda>src dst. Inr ()),
      open_distance_file := (\<lambda>path. Inr (square [''A'', ''B''] 0)),
      match_distance_matrices := (\<lambda>distances. Inr distances),
      cluster_correlation := (\<lambda>m t flag. Inr (assignment [''A'', ''B''])),
      cluster_consensus := (\<lambda>ds cs fs. Inr (assignment [''A'', ''B''])),
      summarize_clusterings := (\<lambda>c cs. Inr c),
      output_clustering := (\<lambda>c path. Inr ())\<rparr>"

definition pipeline_param :: "bool \<Rightarrow> param" where
  "pipeline_param flag =
     \<lparr>new_config = flag, config = ''config.yaml'', distance_matrix = [], threshold = 0,
      all_constraints = False, distance_matrices = [], clusterings = [],
      fine_clusterings = [], output_path = []\<rparr>"

text \<open>
  A configuration with two distance matrices, SNP and MLST, thresholds for the keys
  \<open>ts\<close> and the fine clusterings \<open>fine\<close>.
\<close>

definition two_matrices :: "string list \<Rightarrow> string list \<Rightarrow> config" where
  "two_matrices ts fine =
     \<lparr>cfg_distances = Some [(''SNP'', ''snp.tsv''), (''MLST'', ''mlst.tsv'')],
      cfg_genotyping = Some [],
      cfg_thresholds = Some (map (\<lambda>k. (k, 5)) ts),
      cfg_fine_clusterings = Some fine,
      cfg_all_constraints = Some True,
      cfg_output = Some ''out.tsv''\<rparr>"

text \<open>
  The example of section 8: four samples, A-B and C-D at dissimilarity 1, the other
  pairs at 9.
\<close>

definition four_samples :: dissimilarity_matrix where
  "four_samples =
     \<lparr>matrix_samples = [''A'', ''B'', ''C'', ''D''],
      dissimilarity = (\<lambda>i j.
        if i = j then 0
        else if (i = ''A'' \<and> j = ''B'') \<or> (i = ''B'' \<and> j = ''A'') then 1
        else if (i = ''C'' \<and> j = ''D'') \<or> (i = ''D'' \<and> j = ''C'') then 1
        else 9)\<rparr>"


text \<open>
  Two partitions of the samples A and B: one separates them, one joins them.
\<close>

definition apart :: partition where
  "apart = \<lparr>partition_samples = [''A'', ''B''], label = (\<lambda>i. if i = ''A'' then 0 else 1)\<rparr>"

definition together :: partition where
  "together = \<lparr>partition_samples = [''A'', ''B''], label = (\<lambda>i. 0)\<rparr>"

section \<open>Properties of the entry points\<close>

lemmas run_defs = ret_def raise_def emit_def lift_def bind_run_def seq_def py_assert_def
  logger_info_def logger_debug_def key_def dict_get_def

lemmas example_defs = failing_env_def square_def assignment_def consensus_env_def
  consensus_param_def pipeline_env_def pipeline_param_def two_matrices_def

subsection \<open>Runs\<close>

lemma bind_run_assoc:
  "bind_run (bind_run m f) g = bind_run m (\<lambda>x. bind_run (f x) g)"
  by (cases m) (auto simp: bind_run_def split: sum.splits)

lemma bind_run_ret: "bind_run (ret x) f = f x"
  by (simp add: bind_run_def ret_def)

text \<open>
  For running the model on an example: the two equations of \<open>bind_run\<close>, in which the
  rest of the block is run once.
\<close>

lemma bind_run_Inl: "bind_run (t, Inl e) f = (t, Inl e)"
  by (simp add: bind_run_def)

lemma bind_run_Inr: "bind_run (t, Inr x) f = (case f x of (t', r) \<Rightarrow> (t @ t', r))"
  by (simp add: bind_run_def split_def)

lemmas eval_defs = ret_def raise_def emit_def lift_def seq_def py_assert_def
  logger_info_def logger_debug_def key_def dict_get_def bind_run_Inl bind_run_Inr

lemma for_each_events: "(\<And>x. fst (body x) = []) \<Longrightarrow> fst (for_each body xs) = []"
  by (induction xs) (auto simp: run_defs split: sum.splits)

subsection \<open>Batch-list files\<close>

lemma split_length: "length (split c s) = Suc (count_list s c)"
  by (induction s) (auto split: list.splits)

lemma unpack2_length:
  "unpack2 xs = (if length xs = 2 then ret (xs ! 0, xs ! 1) else raise ValueError)"
  by (cases xs rule: unpack2.cases) simp_all

lemma count_rstrip:
  assumes "\<not> is_space c"
  shows "count_list (rstrip s) c = count_list s c"
proof -
  have "count_list (takeWhile is_space (rev s)) c = 0"
    using assms by (auto simp: count_list_0_iff dest: set_takeWhileD)
  moreover have "count_list (rev s) c =
      count_list (takeWhile is_space (rev s)) c + count_list (dropWhile is_space (rev s)) c"
    by (metis count_list_append takeWhile_dropWhile_id)
  ultimately show ?thesis by (simp add: rstrip_def)
qed

lemma equals_not_space: "\<not> is_space CHR ''=''"
  by (simp add: is_space_def)

lemma entry_length:
  "length (split CHR ''='' (rstrip line)) = Suc (count_list line CHR ''='')"
  by (simp add: split_length count_rstrip equals_not_space)

lemma bad_line_raises:
  "count_list line CHR ''='' \<noteq> 1 \<Longrightarrow> read_batch opener (line # rest) d = raise ValueError"
  by (simp add: unpack2_length entry_length bind_run_def raise_def)

lemma read_batch_append:
  "read_batch opener (xs @ ys) d = bind_run (read_batch opener xs d) (read_batch opener ys)"
proof (induction xs arbitrary: d)
  case Nil
  show ?case by (simp add: bind_run_ret)
next
  case (Cons line xs)
  show ?case
    by (simp add: Cons.IH bind_run_assoc split_def)
qed

lemma dict_set_fresh: "k \<notin> fst ` set d \<Longrightarrow> dict_set d k v = d @ [(k, v)]"
  by (induction d) auto

lemma keys_dict_set:
  "map fst (dict_set d k v) = (if k \<in> set (map fst d) then map fst d else map fst d @ [k])"
  by (induction d) force+

lemma first_seen_cong: "set a = set b \<Longrightarrow> first_seen a xs = first_seen b xs"
proof (induction xs arbitrary: a b)
  case Nil
  show ?case by simp
next
  case (Cons x xs)
  have "first_seen (x # a) xs = first_seen (x # b) xs"
    by (rule Cons.IH) (simp add: Cons.prems)
  moreover have "first_seen a xs = first_seen b xs"
    by (rule Cons.IH) (rule Cons.prems)
  ultimately show ?case using Cons.prems by simp
qed

lemma read_batch_entries:
  assumes "list_all2 (\<lambda>line e. split CHR ''='' (rstrip line) = [fst e, fst (snd e)] \<and>
              snd (opener (fst (snd e))) = Inr (snd (snd e))) lines entries"
    and "distinct (map fst entries)"
    and "fst ` set entries \<inter> fst ` set d = {}"
  shows "snd (read_batch opener lines d) = Inr (d @ map (\<lambda>e. (fst e, snd (snd e))) entries)"
  using assms
proof (induction lines entries arbitrary: d rule: list_all2_induct)
  case Nil
  show ?case by (simp add: ret_def)
next
  case (Cons line lines e entries)
  have fresh: "fst e \<notin> fst ` set d" using Cons.prems by auto
  have "snd (read_batch opener lines (dict_set d (fst e) (snd (snd e)))) =
        Inr (dict_set d (fst e) (snd (snd e)) @ map (\<lambda>e. (fst e, snd (snd e))) entries)"
    using Cons.prems fresh by (intro Cons.IH) (auto simp: dict_set_fresh)
  then show ?case
    using Cons.hyps(1) fresh by (simp add: bind_run_def ret_def dict_set_fresh)
qed

lemma read_batch_keys:
  assumes "list_all2 (\<lambda>line e. split CHR ''='' (rstrip line) = [fst e, fst (snd e)] \<and>
              snd (opener (fst (snd e))) = Inr (snd (snd e))) lines entries"
  shows "\<exists>d'. snd (read_batch opener lines d) = Inr d' \<and>
           map fst d' = map fst d @ first_seen (map fst d) (map fst entries)"
  using assms
proof (induction lines entries arbitrary: d rule: list_all2_induct)
  case Nil
  show ?case by (simp add: ret_def)
next
  case (Cons line lines e entries)
  obtain d' where d': "snd (read_batch opener lines (dict_set d (fst e) (snd (snd e)))) = Inr d'"
    "map fst d' = map fst (dict_set d (fst e) (snd (snd e))) @
       first_seen (map fst (dict_set d (fst e) (snd (snd e)))) (map fst entries)"
    using Cons.IH by blast
  have "first_seen (map fst d @ [fst e]) (map fst entries) =
        first_seen (fst e # map fst d) (map fst entries)"
    by (rule first_seen_cong) auto
  with d' show ?case
    using Cons.hyps(1) by (auto simp: bind_run_def ret_def keys_dict_set)
qed

text \<open>
  C9. A line of a batch-list file is stripped of trailing white space, split at every
  \<^verbatim>\<open>=\<close> and unpacked into two names. A line that does not hold exactly one \<^verbatim>\<open>=\<close>
  (a blank line, a line without \<^verbatim>\<open>=\<close>, a path with \<^verbatim>\<open>=\<close> in it) ends the run
  with \<^verbatim>\<open>ValueError\<close> as soon as the lines before it have been read; a line with
  exactly one splits into a name and a path. When every line is well formed and every
  path opens, the names are stored in the order in which they first appear in the file,
  and when the names are distinct the stored entries are those of the file, line by
  line.
\<close>

theorem batch_list_lines:
  "(count_list line CHR ''='' \<noteq> 1 \<longrightarrow>
      (\<forall>t d'. read_batch opener pre d = (t, Inr d') \<longrightarrow>
         read_batch opener (pre @ line # post) d = (t, Inl ValueError))) \<and>
   (count_list line' CHR ''='' = 1 \<longrightarrow>
      (\<exists>name path. split CHR ''='' (rstrip line') = [name, path] \<and>
         unpack2 (split CHR ''='' (rstrip line')) = ret (name, path))) \<and>
   (list_all2 (\<lambda>line e. split CHR ''='' (rstrip line) = [fst e, fst (snd e)] \<and>
        snd (opener (fst (snd e))) = Inr (snd (snd e))) lines entries \<longrightarrow>
      (\<exists>stored. snd (read_batch opener lines []) = Inr stored \<and>
         map fst stored = first_seen [] (map fst entries) \<and>
         (distinct (map fst entries) \<longrightarrow>
            stored = map (\<lambda>e. (fst e, snd (snd e))) entries)))"
proof (intro conjI impI allI)
  fix t d'
  assume "count_list line CHR ''='' \<noteq> 1" "read_batch opener pre d = (t, Inr d')"
  then show "read_batch opener (pre @ line # post) d = (t, Inl ValueError)"
    using bad_line_raises [of line opener post d']
    by (simp add: read_batch_append bind_run_def raise_def del: read_batch.simps)
next
  assume one: "count_list line' CHR ''='' = 1"
  then have "length (split CHR ''='' (rstrip line')) = 2"
    by (simp add: entry_length)
  then obtain name path where "split CHR ''='' (rstrip line') = [name, path]"
    by (auto simp: length_Suc_conv numeral_2_eq_2)
  then show "\<exists>name path. split CHR ''='' (rstrip line') = [name, path] \<and>
         unpack2 (split CHR ''='' (rstrip line')) = ret (name, path)"
    by simp
next
  assume wf: "list_all2 (\<lambda>line e. split CHR ''='' (rstrip line) = [fst e, fst (snd e)] \<and>
        snd (opener (fst (snd e))) = Inr (snd (snd e))) lines entries"
  obtain stored where stored: "snd (read_batch opener lines []) = Inr stored"
    "map fst stored = first_seen [] (map fst entries)"
    using read_batch_keys [OF wf, of "[]"] by auto
  have "stored = map (\<lambda>e. (fst e, snd (snd e))) entries" if "distinct (map fst entries)"
    using read_batch_entries [OF wf that, of "[]"] stored(1) by simp
  with stored show "\<exists>stored. snd (read_batch opener lines []) = Inr stored \<and>
         map fst stored = first_seen [] (map fst entries) \<and>
         (distinct (map fst entries) \<longrightarrow>
            stored = map (\<lambda>e. (fst e, snd (snd e))) entries)"
    by blast
qed

theorem batch_list_lines_witness:
  "read_batch (open_distance (consensus_env [] [])) [''SNP=snp.tsv'' @ [CHR 0x0A], ''a=b=c''] [] =
     ([OpenDistance ''snp.tsv''], Inl ValueError) \<and>
   split CHR ''='' (rstrip (''SNP=snp.tsv'' @ [CHR 0x0A])) = [''SNP'', ''snp.tsv''] \<and>
   snd (read_batch (open_distance (consensus_env [] []))
          [''SNP=snp.tsv'' @ [CHR 0x0A], ''MLST=mlst.tsv'' @ [CHR 0x0A]] []) =
     Inr [(''SNP'', square [''A'', ''B''] 0), (''MLST'', square [''A'', ''B''] 0)]"
  using batch_list_lines [of "''a=b=c''" "open_distance (consensus_env [] [])"
      "[''SNP=snp.tsv'' @ [CHR 0x0A]]" "[]" "[]" "''SNP=snp.tsv'' @ [CHR 0x0A]"
      "[''SNP=snp.tsv'' @ [CHR 0x0A], ''MLST=mlst.tsv'' @ [CHR 0x0A]]"
      "[(''SNP'', ''snp.tsv'', square [''A'', ''B''] 0),
        (''MLST'', ''mlst.tsv'', square [''A'', ''B''] 0)]"]
  by (simp add: open_distance_def example_defs rstrip_def is_space_def eval_defs)

subsection \<open>The checks of the subcommand consensus\<close>

lemma check_pair_events: "fst (check_pair p) = []"
  by (cases p) (auto simp: check_pair_def run_defs Let_def)

lemma check_samples_events: "fst (check_samples d) = []"
  by (simp add: check_samples_def for_each_events check_pair_events)

text \<open>What a pair of entries passes on: the sorted column labels, and nothing else.\<close>

lemma check_pair_columns:
  "snd (check_pair (c1, c2)) =
     (if sort (columns (snd c1)) = sort (columns (snd c2)) then Inr () else Inl AssertionError)"
proof -
  have "length (columns (snd c1)) = length (columns (snd c2))"
    if "sort (columns (snd c1)) = sort (columns (snd c2))"
    using that by (metis length_sort)
  then show ?thesis
    by (auto simp: check_pair_def run_defs Let_def)
qed

text \<open>
  C2. The claim is that two clusterings (or two distance matrices) whose row labels or
  column labels differ end the subcommand with a failed assertion before the solver is
  called. The code compares the column labels; for the row labels it reads both lists
  from the first entry of the pair, so different row labels pass. Below, the clustering
  of SNP has the rows A and B and the clustering of MLST the rows C and D, both in the
  assignment format with the one column \<^verbatim>\<open>Cluster\<close>: the run calls the solver and
  ends without an exception.
\<close>

theorem consensus_accepts_different_rows:
  "index (assignment [''A'', ''B'']) \<noteq> index (assignment [''C'', ''D'']) \<and>
   consensus (consensus_env [''SNP'' @ [CHR 0x0A]] [''C'', ''D'']) consensus_param =
     ([Log ''INFO'' ''Getting distance matrices ...'',
       OpenText ''distances.txt'', OpenDistance ''snp.tsv'', OpenDistance ''mlst.tsv'',
       Log ''INFO'' ''Getting clusterings ...'',
       OpenText ''clusterings.txt'', OpenClustering ''snp_clusters.tsv'',
       OpenClustering ''mlst_clusters.tsv'',
       Log ''INFO'' ''Getting other metadata ...'',
       OpenText ''fine.txt'',
       Log ''INFO'' ''Creating and solving consensus clustering problem ...'',
       Consensus [''SNP'', ''MLST''] [''SNP'', ''MLST''] [''SNP''],
       Summarize,
       Log ''INFO'' ''Writing clusterings to file ...'',
       OutputClustering ''out.tsv''],
      Inr ())"
  by (simp add: consensus_def open_lines_def open_distance_def open_clustering_def
      check_samples_def check_pair_def example_defs rstrip_def is_space_def eval_defs)

text \<open>
  C8. The subcommand consensus passes the lines of the fine-modality file, stripped, to
  the solver as they are: when the two batch lists have been read and have passed the
  checks, the solver is called with these names, whether or not they name a clustering,
  and the run ends as the library calls end. The subcommand all, given a configuration
  whose fine clusterings are not among the keys of its distances and genotyping data,
  ends with a failed assertion.
\<close>

theorem consensus_fine_names_unchecked:
  "(open_text env (distance_matrices p) = Inr dfile \<and>
    read_batch (open_distance env) dfile [] = (t1, Inr ds) \<and>
    snd (check_samples ds) = Inr () \<and>
    open_text env (clusterings p) = Inr cfile \<and>
    read_batch (open_clustering env) cfile [] = (t2, Inr cs) \<and>
    snd (check_samples cs) = Inr () \<and>
    open_text env (fine_clusterings p) = Inr ffile \<longrightarrow>
    Consensus (map fst ds) (map fst cs) (map rstrip ffile) \<in> set (fst (consensus env p)) \<and>
    snd (consensus env p) =
      (case cluster_consensus env ds cs (map rstrip ffile) of
         Inl e \<Rightarrow> Inl e
       | Inr c \<Rightarrow>
           (case summarize_clusterings env c cs of
              Inl e \<Rightarrow> Inl e
            | Inr s \<Rightarrow> output_clustering env s (output_path p)))) \<and>
   (\<not> new_config p' \<and> open_text env' (config p') = Inr text \<and> yaml_load env' text = Inr c \<and>
    cfg_distances c = Some d \<and> cfg_genotyping c = Some g \<and> cfg_thresholds c = Some t \<and>
    cfg_fine_clusterings c = Some f \<and>
    \<not> set f \<subseteq> set (map fst d) \<union> set (map fst g) \<longrightarrow>
    snd (run_all env' p') = Inl AssertionError)"
proof (intro conjI impI)
  assume a: "open_text env (distance_matrices p) = Inr dfile \<and>
    read_batch (open_distance env) dfile [] = (t1, Inr ds) \<and>
    snd (check_samples ds) = Inr () \<and>
    open_text env (clusterings p) = Inr cfile \<and>
    read_batch (open_clustering env) cfile [] = (t2, Inr cs) \<and>
    snd (check_samples cs) = Inr () \<and>
    open_text env (fine_clusterings p) = Inr ffile"
  then show "Consensus (map fst ds) (map fst cs) (map rstrip ffile) \<in> set (fst (consensus env p))"
    by (simp add: consensus_def open_lines_def run_defs Let_def split: sum.splits)
  from a show "snd (consensus env p) =
      (case cluster_consensus env ds cs (map rstrip ffile) of
         Inl e \<Rightarrow> Inl e
       | Inr c \<Rightarrow>
           (case summarize_clusterings env c cs of
              Inl e \<Rightarrow> Inl e
            | Inr s \<Rightarrow> output_clustering env s (output_path p)))"
    by (simp add: consensus_def open_lines_def run_defs Let_def split: sum.splits)
next
  assume "\<not> new_config p' \<and> open_text env' (config p') = Inr text \<and> yaml_load env' text = Inr c \<and>
    cfg_distances c = Some d \<and> cfg_genotyping c = Some g \<and> cfg_thresholds c = Some t \<and>
    cfg_fine_clusterings c = Some f \<and>
    \<not> set f \<subseteq> set (map fst d) \<union> set (map fst g)"
  then show "snd (run_all env' p') = Inl AssertionError"
    by (simp add: run_all_def load_config_def open_lines_def check_config_def run_defs Let_def)
qed

theorem consensus_fine_names_unchecked_witness:
  "Consensus [''SNP'', ''MLST''] [''SNP'', ''MLST''] [''SPOLIGO'']
     \<in> set (fst (consensus (consensus_env [''SPOLIGO'' @ [CHR 0x0A]] [''A'', ''B'']) consensus_param)) \<and>
   snd (consensus (consensus_env [''SPOLIGO'' @ [CHR 0x0A]] [''A'', ''B'']) consensus_param) = Inr () \<and>
   snd (run_all (pipeline_env (two_matrices [''SNP'', ''MLST''] [''SPOLIGO''])) (pipeline_param False)) =
     Inl AssertionError"
  using consensus_fine_names_unchecked
    [of "consensus_env [''SPOLIGO'' @ [CHR 0x0A]] [''A'', ''B'']" consensus_param
      "[''SNP=snp.tsv'' @ [CHR 0x0A], ''MLST=mlst.tsv'' @ [CHR 0x0A]]"
      "[OpenDistance ''snp.tsv'', OpenDistance ''mlst.tsv'']"
      "[(''SNP'', square [''A'', ''B''] 0), (''MLST'', square [''A'', ''B''] 0)]"
      "[''SNP=snp_clusters.tsv'' @ [CHR 0x0A], ''MLST=mlst_clusters.tsv'' @ [CHR 0x0A]]"
      "[OpenClustering ''snp_clusters.tsv'', OpenClustering ''mlst_clusters.tsv'']"
      "[(''SNP'', assignment [''A'', ''B'']), (''MLST'', assignment [''A'', ''B''])]"
      "[''SPOLIGO'' @ [CHR 0x0A]]"
      "pipeline_param False" "pipeline_env (two_matrices [''SNP'', ''MLST''] [''SPOLIGO''])"
      "[]" "two_matrices [''SNP'', ''MLST''] [''SPOLIGO'']"
      "[(''SNP'', ''snp.tsv''), (''MLST'', ''mlst.tsv'')]" "[]"
      "[(''SNP'', 5), (''MLST'', 5)]" "[''SPOLIGO'']"]
  by (simp add: open_distance_def open_clustering_def check_samples_def check_pair_def
      example_defs rstrip_def is_space_def eval_defs)

subsection \<open>The subcommand all\<close>

lemma load_config_events:
  "list_all (\<lambda>e. \<not> computes e) (fst (load_config env p))"
  by (auto simp: load_config_def open_lines_def run_defs split: sum.splits)

lemma check_config_events: "fst (check_config c) = []"
  by (auto simp: check_config_def run_defs Let_def split: option.splits)

text \<open>Line 78 raises as soon as there is one distance matrix.\<close>

lemma match_if_needed_raises:
  "distances \<noteq> [] \<Longrightarrow> match_if_needed env distances = ([], Inl TypeError)"
  by (cases distances) (simp_all add: match_if_needed_def py_set_of_sets_def run_defs)

lemma match_if_needed_empty: "match_if_needed env [] = ([], Inr [])"
  by (simp add: match_if_needed_def py_set_of_sets_def run_defs)

text \<open>
  C3. The claim is that distance matrices over one sample set pass the alignment step
  unchanged, and that matrices over different sample sets are matched after a warning.
  Line 78 puts the sample sets, which are \<^verbatim>\<open>set\<close> objects, into a \<^verbatim>\<open>set\<close>, which
  raises \<^verbatim>\<open>TypeError\<close>: below, a valid configuration with two distance matrices over
  the same samples A and B ends with \<^verbatim>\<open>TypeError\<close> once the matrices have been read,
  and no clustering is computed.
\<close>

theorem run_all_raises_on_equal_sample_sets:
  "run_all (pipeline_env (two_matrices [''SNP'', ''MLST''] [])) (pipeline_param False) =
     ([OpenText ''config.yaml'', YamlLoad,
       Log ''INFO'' ''Reading genotyping calls ...'',
       Log ''INFO'' ''Creating distance matrices ...'',
       Log ''INFO'' ''Reading distance matrices ...'',
       OpenDistance ''snp.tsv'', OpenDistance ''mlst.tsv''],
      Inl TypeError)"
  by (simp add: run_all_def load_config_def check_config_def run_pipeline_def
      match_if_needed_def py_set_of_sets_def open_lines_def open_distance_def
      example_defs eval_defs)

text \<open>
  C6. When the subcommand all is run without the new-config flag and the configuration
  file does not parse, or parses to a configuration whose \<^verbatim>\<open>distances\<close> and
  \<^verbatim>\<open>genotyping\<close> share a key, whose \<^verbatim>\<open>thresholds\<close> keys are not the union of the
  two, or whose \<^verbatim>\<open>fine_clusterings\<close> are not all among them, the process exits with
  status 1, and the run has read no genotyping calls, built or read no distance matrix
  and computed or written no clustering.
\<close>

theorem run_all_rejects_bad_config:
  "\<not> new_config p \<Longrightarrow> open_text env (config p) = Inr s \<Longrightarrow>
   yaml_load env s = Inl YAMLError \<or>
   (\<exists>c d g t f. yaml_load env s = Inr c \<and> cfg_distances c = Some d \<and>
      cfg_genotyping c = Some g \<and> cfg_thresholds c = Some t \<and>
      cfg_fine_clusterings c = Some f \<and>
      (set (map fst d) \<inter> set (map fst g) \<noteq> {} \<or>
       set (map fst t) \<noteq> set (map fst d) \<union> set (map fst g) \<or>
       \<not> set f \<subseteq> set (map fst d) \<union> set (map fst g))) \<Longrightarrow>
   exit_status (run_all env p) = 1 \<and>
   list_all (\<lambda>e. \<not> computes e) (fst (run_all env p))"
proof (erule disjE)
  assume "\<not> new_config p" "open_text env (config p) = Inr s" "yaml_load env s = Inl YAMLError"
  then show ?thesis
    by (simp add: run_all_def load_config_def open_lines_def run_defs exit_status_def)
next
  assume "\<not> new_config p" "open_text env (config p) = Inr s"
    "\<exists>c d g t f. yaml_load env s = Inr c \<and> cfg_distances c = Some d \<and>
      cfg_genotyping c = Some g \<and> cfg_thresholds c = Some t \<and>
      cfg_fine_clusterings c = Some f \<and>
      (set (map fst d) \<inter> set (map fst g) \<noteq> {} \<or>
       set (map fst t) \<noteq> set (map fst d) \<union> set (map fst g) \<or>
       \<not> set f \<subseteq> set (map fst d) \<union> set (map fst g))"
  then show ?thesis
    by (elim exE conjE)
      (simp add: run_all_def load_config_def open_lines_def check_config_def run_defs
        exit_status_def Let_def)
qed

theorem run_all_rejects_bad_config_witness:
  "exit_status (run_all (pipeline_env (two_matrices [''SNP''] [])) (pipeline_param False)) = 1 \<and>
   list_all (\<lambda>e. \<not> computes e)
     (fst (run_all (pipeline_env (two_matrices [''SNP''] [])) (pipeline_param False))) \<and>
   exit_status (run_all (failing_env\<lparr>open_text := (\<lambda>path. Inr [''{''])\<rparr>) (pipeline_param False)) = 1 \<and>
   fst (run_all (failing_env\<lparr>open_text := (\<lambda>path. Inr [''{''])\<rparr>) (pipeline_param False)) =
     [OpenText ''config.yaml'', YamlLoad, Print ''<class 'yaml.error.YAMLError'>'']"
  using run_all_rejects_bad_config
      [of "pipeline_param False" "pipeline_env (two_matrices [''SNP''] [])" "[]"]
    run_all_rejects_bad_config
      [of "pipeline_param False" "failing_env\<lparr>open_text := (\<lambda>path. Inr [''{''])\<rparr>" "[''{'']"]
  by (simp add: example_defs run_all_def load_config_def open_lines_def eval_defs)

text \<open>
  C10. With the new-config flag the subcommand all copies the blank configuration file
  of the package to the path given and prints where it wrote it: the run opens and
  parses no configuration file, reads no calls, builds or reads no distance matrix and
  computes or writes no clustering; when the lookup of the packaged file and the copy
  succeed, the copy and the message are the whole run.
\<close>

theorem new_config_only_copies:
  "new_config p \<Longrightarrow>
     list_all (\<lambda>e. \<not> reads_config e \<and> \<not> computes e) (fst (run_all env p)) \<and>
     (\<forall>src. resource_filename env ''pathogist/resources/blank_config.yaml'' = Inr src \<and>
        copyfile env src (config p) = Inr () \<longrightarrow>
        run_all env p =
          ([CopyFile src (config p), Print (''New configuration file written at '' @ config p)],
           Inr ()))"
  by (auto simp: run_all_def write_new_config_def run_defs split: sum.splits)

theorem new_config_only_copies_witness:
  "new_config (pipeline_param True) \<and>
   run_all (pipeline_env (two_matrices [] [])) (pipeline_param True) =
     ([CopyFile ''/pkg/pathogist/resources/blank_config.yaml'' ''config.yaml'',
       Print ''New configuration file written at config.yaml''],
      Inr ())"
  using new_config_only_copies [of "pipeline_param True" "pipeline_env (two_matrices [] [])"]
  by (simp add: example_defs)

section \<open>Properties of the optimization engine\<close>

subsection \<open>Lists of pairs, triples and sublists\<close>

lemma combinations2_set:
  "(i, j) \<in> set (combinations2 s) \<Longrightarrow> i \<in> set s \<and> j \<in> set s"
  by (induction s) auto

lemma combinations2_distinct:
  "distinct s \<Longrightarrow> (i, j) \<in> set (combinations2 s) \<Longrightarrow> i \<noteq> j \<and> (j, i) \<notin> set (combinations2 s)"
  by (induction s) (auto dest: combinations2_set)

lemma combinations2_total:
  "i \<in> set s \<Longrightarrow> j \<in> set s \<Longrightarrow> i \<noteq> j \<Longrightarrow>
     (i, j) \<in> set (combinations2 s) \<or> (j, i) \<in> set (combinations2 s)"
  by (induction s) auto

lemma distinct_combinations2: "distinct s \<Longrightarrow> distinct (combinations2 s)"
  by (induction s) (auto simp: distinct_map inj_on_def dest: combinations2_set)

lemma triples_iff:
  "(i, j, k) \<in> set (triples s) \<longleftrightarrow>
     i \<in> set s \<and> j \<in> set s \<and> k \<in> set s \<and> i \<noteq> j \<and> j \<noteq> k \<and> i \<noteq> k"
  by (auto simp: triples_def split: if_splits)

lemma Nil_in_subseqs: "[] \<in> set (subseqs xs)"
  by (induction xs) (auto simp: Let_def)

lemma filter_in_subseqs: "filter P xs \<in> set (subseqs xs)"
  by (induction xs) (auto simp: Let_def)

lemma subseqs_subset: "ys \<in> set (subseqs xs) \<Longrightarrow> set ys \<subseteq> set xs"
  using subseqs_powset [of xs] by blast

lemma subseqs_filter:
  "ys \<in> set (subseqs xs) \<Longrightarrow> distinct xs \<Longrightarrow> ys = filter (\<lambda>p. p \<in> set ys) xs"
proof (induction xs arbitrary: ys)
  case Nil
  then show ?case by simp
next
  case (Cons x xs)
  from Cons.prems(1) consider zs where "ys = x # zs" "zs \<in> set (subseqs xs)"
    | "ys \<in> set (subseqs xs)"
    by (auto simp: Let_def)
  then show ?case
  proof cases
    case 1
    have "x \<notin> set xs" using Cons.prems(2) by simp
    then have "x \<notin> set zs" using subseqs_subset [OF 1(2)] by auto
    have "zs = filter (\<lambda>p. p \<in> set zs) xs"
      using Cons.IH [OF 1(2)] Cons.prems(2) by simp
    moreover have "filter (\<lambda>p. p \<in> set zs) xs = filter (\<lambda>p. p \<in> set (x # zs)) xs"
      using \<open>x \<notin> set xs\<close> by (intro filter_cong) auto
    ultimately show ?thesis using 1(1) by simp
  next
    case 2
    have "x \<notin> set xs" using Cons.prems(2) by simp
    then have "x \<notin> set ys" using subseqs_subset [OF 2] by auto
    moreover have "ys = filter (\<lambda>p. p \<in> set ys) xs"
      using Cons.IH [OF 2] Cons.prems(2) by simp
    ultimately show ?thesis by simp
  qed
qed

lemma subseqs_eqI:
  assumes "ys \<in> set (subseqs xs)" "zs \<in> set (subseqs xs)" "distinct xs" "set ys = set zs"
  shows "ys = zs"
  using subseqs_filter [OF assms(1,3)] subseqs_filter [OF assms(2,3)] assms(4) by simp

text \<open>
  \<open>arg_min_list\<close> returns an element of least value, and the first of them: every
  element before it has a greater value.
\<close>

lemma arg_min_list_first:
  fixes f :: "'a \<Rightarrow> real"
  assumes "xs \<noteq> []"
  shows "\<exists>k<length xs. xs ! k = arg_min_list f xs \<and>
           (\<forall>j<k. f (arg_min_list f xs) < f (xs ! j)) \<and>
           (\<forall>j<length xs. f (arg_min_list f xs) \<le> f (xs ! j))"
  using assms
proof (induction f xs rule: arg_min_list.induct)
  case (1 f x)
  then show ?case by simp
next
  case (2 f x y zs)
  let ?m = "arg_min_list f (y # zs)"
  obtain k where k: "k < length (y # zs)" "(y # zs) ! k = ?m"
    "\<forall>j<k. f ?m < f ((y # zs) ! j)" "\<forall>j<length (y # zs). f ?m \<le> f ((y # zs) ! j)"
    using 2 by blast
  show ?case
  proof (cases "f x \<le> f ?m")
    case True
    then have r: "arg_min_list f (x # y # zs) = x" by (simp add: Let_def)
    have "f x \<le> f ((x # y # zs) ! j)" if "j < length (x # y # zs)" for j
    proof (cases j)
      case 0
      then show ?thesis by simp
    next
      case (Suc j')
      then have "f ?m \<le> f ((y # zs) ! j')" using k(4) that by simp
      then show ?thesis using True Suc by simp
    qed
    then show ?thesis unfolding r by (intro exI [of _ 0]) simp
  next
    case False
    then have r: "arg_min_list f (x # y # zs) = ?m" by (simp add: Let_def)
    have a: "f ?m < f ((x # y # zs) ! j)" if "j < Suc k" for j
    proof (cases j)
      case 0
      then show ?thesis using False by simp
    next
      case (Suc j')
      then show ?thesis using k(3) that by simp
    qed
    have b: "f ?m \<le> f ((x # y # zs) ! j)" if "j < length (x # y # zs)" for j
    proof (cases j)
      case 0
      then show ?thesis using False by simp
    next
      case (Suc j')
      then show ?thesis using k(4) that by simp
    qed
    show ?thesis unfolding r
      using k(1,2) a b by (intro exI [of _ "Suc k"]) simp
  qed
next
  case (3 f)
  then show ?case by simp
qed

text \<open>A solution of objective zero among solutions of objective at least zero.\<close>

lemma arg_min_list_zero:
  fixes f :: "'a \<Rightarrow> real"
  assumes "x \<in> set xs" "f x = 0" "\<And>y. y \<in> set xs \<Longrightarrow> 0 \<le> f y"
    "\<And>y. y \<in> set xs \<Longrightarrow> f y = 0 \<Longrightarrow> y = x"
  shows "arg_min_list f xs = x"
proof -
  have ne: "xs \<noteq> []" using assms(1) by auto
  have "arg_min_list f xs \<in> set xs" using ne by (rule arg_min_list_in)
  moreover have "f (arg_min_list f xs) \<le> f x"
    using arg_min_list_first [OF ne, of f] assms(1) by (metis in_set_conv_nth)
  ultimately show ?thesis using assms(2,3,4) by (metis order_antisym)
qed

subsection \<open>Decoding a transitive solution\<close>

lemma same_sym: "same x i j = same x j i"
  by (auto simp: same_def)

lemma transitivityD:
  assumes "list_all (transitivity x) (triples s)"
    and "a \<in> set s" "b \<in> set s" "c \<in> set s" "a \<noteq> b" "b \<noteq> c" "a \<noteq> c"
    and "same x a b" "same x b c"
  shows "same x a c"
proof -
  have "(a, b, c) \<in> set (triples s)" using assms(2-7) by (simp add: triples_iff)
  then have "transitivity x (a, b, c)" using assms(1) by (simp add: list_all_iff)
  then show ?thesis using assms(8,9)
    by (simp add: transitivity_def same_value_def split: if_splits)
qed

text \<open>The samples a solution joins to \<open>i\<close>, and \<open>i\<close> itself.\<close>

lemma joined_trans:
  assumes tr: "list_all (transitivity x) (triples s)"
    and "i \<in> set s" "u \<in> set s" "t \<in> set s"
    and iu: "u = i \<or> same x i u" and ut: "t = u \<or> same x u t"
  shows "t = i \<or> same x i t"
proof (cases "u = i \<or> t = u \<or> t = i")
  case True
  then show ?thesis using iu ut by auto
next
  case False
  then have "same x i u" "same x u t" "i \<noteq> u" "u \<noteq> t" "i \<noteq> t"
    using iu ut by auto
  then have "same x i t"
    using transitivityD [OF tr, of i u t] assms(2-4) by blast
  then show ?thesis ..
qed

lemma takeWhile_shorter: "i \<in> set s \<Longrightarrow> \<not> P i \<Longrightarrow> length (takeWhile P s) < length s"
  by (induction s) auto

lemma grow_single: "grow x s [i] = filter (\<lambda>t. t = i \<or> same x i t) s"
  by (simp add: grow_def)

lemma grow_class:
  assumes "list_all (transitivity x) (triples s)" "i \<in> set s"
  shows "grow x s (filter (\<lambda>t. t = i \<or> same x i t) s) = filter (\<lambda>t. t = i \<or> same x i t) s"
  unfolding grow_def
proof (rule filter_cong [OF refl])
  fix t assume t: "t \<in> set s"
  let ?K = "filter (\<lambda>t. t = i \<or> same x i t) s"
  show "(t \<in> set ?K \<or> list_ex (\<lambda>u. same x u t) ?K) = (t = i \<or> same x i t)"
  proof
    assume "t \<in> set ?K \<or> list_ex (\<lambda>u. same x u t) ?K"
    then show "t = i \<or> same x i t"
    proof
      assume "t \<in> set ?K"
      then show ?thesis by simp
    next
      assume "list_ex (\<lambda>u. same x u t) ?K"
      then obtain u where u: "u \<in> set s" "u = i \<or> same x i u" "same x u t"
        by (auto simp: list_ex_iff)
      then show ?thesis using joined_trans [OF assms(1,2) u(1) t] by blast
    qed
  next
    assume "t = i \<or> same x i t"
    then show "t \<in> set ?K \<or> list_ex (\<lambda>u. same x u t) ?K" using t by simp
  qed
qed

lemma component_class:
  assumes "list_all (transitivity x) (triples s)" "i \<in> set s"
  shows "component x s i = filter (\<lambda>t. t = i \<or> same x i t) s"
proof -
  have "(grow x s ^^ Suc n) [i] = filter (\<lambda>t. t = i \<or> same x i t) s" for n
  proof (induction n)
    case 0
    show ?case by (simp add: grow_single)
  next
    case (Suc n)
    have "(grow x s ^^ Suc (Suc n)) [i] = grow x s ((grow x s ^^ Suc n) [i])" by simp
    also have "\<dots> = filter (\<lambda>t. t = i \<or> same x i t) s"
      unfolding Suc.IH by (rule grow_class [OF assms])
    finally show ?case .
  qed
  moreover obtain n where "length s = Suc n"
    using assms(2) by (cases s) auto
  ultimately show ?thesis by (simp add: component_def)
qed

lemma label_decode:
  assumes "list_all (transitivity x) (triples s)" "i \<in> set s"
  shows "label (decode s x) i < length s"
    and "s ! label (decode s x) i = i \<or> same x i (s ! label (decode s x) i)"
proof -
  let ?P = "\<lambda>t. t \<notin> set (component x s i)"
  have i: "\<not> ?P i" using assms by (simp add: component_class)
  have "length (takeWhile ?P s) < length s"
    using assms(2) i by (rule takeWhile_shorter)
  then show l: "label (decode s x) i < length s" by (simp add: decode_def)
  have "\<not> ?P (s ! length (takeWhile ?P s))"
    using \<open>length (takeWhile ?P s) < length s\<close> by (rule nth_length_takeWhile)
  then show "s ! label (decode s x) i = i \<or> same x i (s ! label (decode s x) i)"
    using assms by (simp add: decode_def component_class)
qed

text \<open>
  The partition decoded from a solution that satisfies the transitivity constraints of
  every triple co-clusters two samples iff the solution joins them.
\<close>

lemma co_clustered_decode:
  assumes tr: "list_all (transitivity x) (triples s)" and i: "i \<in> set s" and j: "j \<in> set s"
  shows "co_clustered (decode s x) i j \<longleftrightarrow> i = j \<or> same x i j"
proof
  assume "co_clustered (decode s x) i j"
  then have eq: "label (decode s x) i = label (decode s x) j" by (simp add: co_clustered_def)
  let ?t = "s ! label (decode s x) i"
  have t: "?t \<in> set s" using label_decode(1) [OF tr i] by simp
  have "?t = i \<or> same x i ?t" using label_decode(2) [OF tr i] .
  moreover have "?t = j \<or> same x j ?t" using label_decode(2) [OF tr j] eq by simp
  ultimately have "?t = i \<or> same x i ?t" "j = ?t \<or> same x ?t j"
    using same_sym [of x j ?t] by auto
  then have "j = i \<or> same x i j" by (rule joined_trans [OF tr i t j])
  then show "i = j \<or> same x i j" by auto
next
  assume r: "i = j \<or> same x i j"
  have "filter (\<lambda>t. t = i \<or> same x i t) s = filter (\<lambda>t. t = j \<or> same x j t) s"
  proof (rule filter_cong [OF refl])
    fix t assume t: "t \<in> set s"
    have ji: "i = j \<or> same x j i" and ij: "j = i \<or> same x i j"
      using r same_sym [of x i j] by auto
    show "(t = i \<or> same x i t) = (t = j \<or> same x j t)"
    proof
      assume "t = i \<or> same x i t"
      then show "t = j \<or> same x j t" by (rule joined_trans [OF tr j i t ji])
    next
      assume "t = j \<or> same x j t"
      then show "t = i \<or> same x i t" by (rule joined_trans [OF tr i j t ij])
    qed
  qed
  then have "component x s i = component x s j"
    using tr i j by (simp add: component_class)
  then show "co_clustered (decode s x) i j" by (simp add: co_clustered_def decode_def)
qed

subsection \<open>Solutions and the samples\<close>

lemma sample_list_props:
  "distinct (sample_list xs)" "set (sample_list xs) = set xs"
  by (simp_all add: sample_list_def)

lemma same_empty: "\<not> same [] i j"
  by (simp add: same_def)

lemma transitivity_empty: "transitivity [] t"
  by (cases t) (simp add: transitivity_def same_value_def same_empty)

lemma Nil_candidate: "[] \<in> set (candidates s)"
  by (simp add: candidates_def Nil_in_subseqs)

text \<open>On a pair of the list of pairs, a filter of that list joins what it keeps.\<close>

lemma same_filter:
  assumes "distinct s" "p \<in> set (combinations2 s)"
  shows "same (filter g (combinations2 s)) (fst p) (snd p) = g p"
proof -
  have "(snd p, fst p) \<notin> set (combinations2 s)"
    using combinations2_distinct [OF assms(1), of "fst p" "snd p"] assms(2) by simp
  then show ?thesis using assms(2) by (auto simp: same_def)
qed

text \<open>A candidate is determined by what it joins on the pairs of the list.\<close>

lemma candidate_eq_filter:
  assumes d: "distinct s" and y: "y \<in> set (candidates s)"
    and g: "\<And>p. p \<in> set (combinations2 s) \<Longrightarrow> same y (fst p) (snd p) = g p"
  shows "y = filter g (combinations2 s)"
proof (rule subseqs_eqI)
  show "y \<in> set (subseqs (combinations2 s))" using y by (simp add: candidates_def)
  show "filter g (combinations2 s) \<in> set (subseqs (combinations2 s))"
    by (rule filter_in_subseqs)
  show "distinct (combinations2 s)" using d by (rule distinct_combinations2)
  have sub: "set y \<subseteq> set (combinations2 s)"
    using y by (simp add: candidates_def subseqs_subset)
  show "set y = set (filter g (combinations2 s))"
  proof (intro set_eqI iffI)
    fix p assume p: "p \<in> set y"
    then have "p \<in> set (combinations2 s)" using sub by auto
    moreover from this have "g p" using g [of p] p by (cases p) (auto simp: same_def)
    ultimately show "p \<in> set (filter g (combinations2 s))" by simp
  next
    fix p assume "p \<in> set (filter g (combinations2 s))"
    then have p: "p \<in> set (combinations2 s)" "g p" by auto
    then have "same y (fst p) (snd p)" using g by simp
    moreover have "(snd p, fst p) \<notin> set y"
      using combinations2_distinct [OF d, of "fst p" "snd p"] p(1) sub by auto
    ultimately show "p \<in> set y" by (simp add: same_def)
  qed
qed

subsection \<open>The correlation-clustering solver\<close>

lemma feasible_nonempty: "feasible m \<theta> flag s \<noteq> []"
proof -
  have "[] \<in> set (feasible m \<theta> flag s)"
    by (simp add: feasible_def Nil_candidate list_all_iff transitivity_empty)
  then show ?thesis by auto
qed

lemma penalty_nonneg: "0 \<le> penalty m \<theta> x p"
  by (simp add: penalty_def)

lemma objective_nonneg: "0 \<le> objective m \<theta> s x"
  unfolding objective_def by (rule sum_list_nonneg) (auto simp: penalty_nonneg)

lemma objective_zero_iff:
  "objective m \<theta> s x = 0 \<longleftrightarrow> (\<forall>p\<in>set (combinations2 s). penalty m \<theta> x p = 0)"
proof -
  have "sum_list (map (penalty m \<theta> x) (combinations2 s)) = 0 \<longleftrightarrow>
      (\<forall>v\<in>set (map (penalty m \<theta> x) (combinations2 s)). v = 0)"
    by (rule sum_list_nonneg_eq_0_iff) (auto simp: penalty_nonneg)
  then show ?thesis by (auto simp: objective_def)
qed

text \<open>
  When no pair lies at the threshold and the pairs below the threshold satisfy the
  constraints, they are the solution of objective zero, and the only one.
\<close>

lemma correlation_threshold_graph:
  assumes s: "s = sample_list (matrix_samples m)"
    and x0: "x0 = filter (\<lambda>p. similar m \<theta> (fst p) (snd p)) (combinations2 s)"
    and no_tie: "\<And>p. p \<in> set (combinations2 s) \<Longrightarrow> dissimilarity m (fst p) (snd p) \<noteq> \<theta>"
    and ok: "list_all (transitivity x0) (constrained_triples m \<theta> flag s)"
  shows "arg_min_list (objective m \<theta> s) (feasible m \<theta> flag s) = x0"
proof (rule arg_min_list_zero)
  have d: "distinct s" using s by (simp add: sample_list_props)
  show "x0 \<in> set (feasible m \<theta> flag s)"
    using ok by (simp add: feasible_def candidates_def x0 filter_in_subseqs)
  show "objective m \<theta> s x0 = 0"
    unfolding objective_zero_iff
    by (auto simp: penalty_def x0 same_filter [OF d])
  show "0 \<le> objective m \<theta> s y" for y by (rule objective_nonneg)
  show "y = x0" if y: "y \<in> set (feasible m \<theta> flag s)" and z: "objective m \<theta> s y = 0" for y
    unfolding x0
  proof (rule candidate_eq_filter [OF d])
    show "y \<in> set (candidates s)" using y by (simp add: feasible_def)
    fix p assume p: "p \<in> set (combinations2 s)"
    then have "penalty m \<theta> y p = 0" using z by (simp add: objective_zero_iff)
    then show "same y (fst p) (snd p) = similar m \<theta> (fst p) (snd p)"
      using no_tie [OF p] by (auto simp: penalty_def split: if_splits)
  qed
qed

lemma correlation_solve_eq:
  "correlation_clustering_solve m \<theta> flag =
     Inr (decode (sample_list (matrix_samples m))
       (arg_min_list (objective m \<theta> (sample_list (matrix_samples m)))
          (feasible m \<theta> flag (sample_list (matrix_samples m)))))"
  by (simp add: correlation_clustering_solve_def Let_def feasible_nonempty)

subsection \<open>The example with four samples\<close>

lemma four_samples_list:
  "sample_list (matrix_samples four_samples) = [''A'', ''B'', ''C'', ''D'']"
  by (simp add: four_samples_def sample_list_def)

lemma four_samples_pairs:
  "filter (\<lambda>p. similar four_samples 5 (fst p) (snd p))
     (combinations2 [''A'', ''B'', ''C'', ''D'']) = [(''A'', ''B''), (''C'', ''D'')]"
  by (simp add: similar_def four_samples_def)

lemma four_samples_transitive:
  "list_all (transitivity [(''A'', ''B''), (''C'', ''D'')]) (triples [''A'', ''B'', ''C'', ''D''])"
  by (simp add: triples_def transitivity_def same_value_def same_def)

lemma four_samples_solution:
  "arg_min_list (objective four_samples 5 [''A'', ''B'', ''C'', ''D''])
     (feasible four_samples 5 True [''A'', ''B'', ''C'', ''D'']) = [(''A'', ''B''), (''C'', ''D'')]"
proof (rule correlation_threshold_graph)
  show "[''A'', ''B'', ''C'', ''D''] = sample_list (matrix_samples four_samples)"
    by (simp add: four_samples_list)
  show "[(''A'', ''B''), (''C'', ''D'')] =
      filter (\<lambda>p. similar four_samples 5 (fst p) (snd p)) (combinations2 [''A'', ''B'', ''C'', ''D''])"
    by (rule four_samples_pairs [symmetric])
  show "dissimilarity four_samples (fst p) (snd p) \<noteq> 5"
    if "p \<in> set (combinations2 [''A'', ''B'', ''C'', ''D''])" for p
    using that by (auto simp: four_samples_def)
  show "list_all (transitivity [(''A'', ''B''), (''C'', ''D'')])
      (constrained_triples four_samples 5 True [''A'', ''B'', ''C'', ''D''])"
    by (simp add: constrained_triples_def four_samples_transitive)
qed

lemma four_samples_labels:
  "map (label (decode [''A'', ''B'', ''C'', ''D''] [(''A'', ''B''), (''C'', ''D'')]))
     [''A'', ''B'', ''C'', ''D''] = [0, 0, 2, 2]"
  by (simp add: decode_def component_def grow_def same_def)

text \<open>
  C4. For the four samples A, B, C, D with dissimilarity 1 between A and B and between C
  and D and 9 between every other pair, threshold 5 and all constraints, the
  correlation-clustering solver returns the partition into the two clusters A, B and
  C, D.
\<close>

theorem correlation_four_samples:
  "\<exists>P. correlation_clustering_solve four_samples 5 True = Inr P \<and>
     partition_samples P = [''A'', ''B'', ''C'', ''D''] \<and>
     clusters P = {{''A'', ''B''}, {''C'', ''D''}}"
proof -
  let ?P = "decode [''A'', ''B'', ''C'', ''D''] [(''A'', ''B''), (''C'', ''D'')]"
  have "correlation_clustering_solve four_samples 5 True = Inr ?P"
    by (simp add: correlation_solve_eq four_samples_list four_samples_solution)
  moreover have "partition_samples ?P = [''A'', ''B'', ''C'', ''D'']"
    by (simp add: decode_def)
  moreover have "clusters ?P = {{''A'', ''B''}, {''C'', ''D''}}"
    using four_samples_labels
    by (simp add: clusters_def co_clustered_def \<open>partition_samples ?P = _\<close>) 
  ultimately show ?thesis by blast
qed

subsection \<open>The consensus-clustering solver\<close>

lemma co_clustered_sym: "co_clustered P i j = co_clustered P j i"
  by (auto simp: co_clustered_def)

lemma common_samples_distinct: "distinct (common_samples ps)"
  by (cases ps) (simp_all add: common_samples_def sample_list_props)

lemma hard_constraints_empty: "hard_constraints ps fine s []"
  by (simp add: hard_constraints_def keeps_apart_def same_empty list_all_iff)

text \<open>The solutions the consensus solver chooses among.\<close>

lemma consensus_feasible_nonempty:
  "filter (\<lambda>x. list_all (transitivity x) (triples s))
     (filter (hard_constraints ps fine s) (candidates s)) \<noteq> []"
proof -
  have "[] \<in> set (filter (\<lambda>x. list_all (transitivity x) (triples s))
     (filter (hard_constraints ps fine s) (candidates s)))"
    by (simp add: Nil_candidate hard_constraints_empty list_all_iff transitivity_empty)
  then show ?thesis by (metis empty_iff list.set(1))
qed

lemma consensus_hard_nonempty:
  "filter (hard_constraints ps fine s) (candidates s) \<noteq> []"
proof -
  have "[] \<in> set (filter (hard_constraints ps fine s) (candidates s))"
    by (simp add: Nil_candidate hard_constraints_empty)
  then show ?thesis by (metis empty_iff list.set(1))
qed

lemma consensus_solve_eq:
  assumes "aligned ms ps"
  shows "consensus_clustering_solve w ms ps fine =
     Inr (decode (common_samples ps)
       (arg_min_list (consensus_objective w ps (common_samples ps))
          (filter (\<lambda>x. list_all (transitivity x) (triples (common_samples ps)))
             (filter (hard_constraints ps fine (common_samples ps))
                (candidates (common_samples ps))))))"
  using assms consensus_feasible_nonempty [of "common_samples ps" ps fine]
    consensus_hard_nonempty [of ps fine "common_samples ps"]
  by (simp add: consensus_clustering_solve_def Let_def del: filter_filter)

lemma consensus_solve_cases:
  "consensus_clustering_solve w ms ps fine = Inr P \<Longrightarrow> aligned ms ps"
  by (simp add: consensus_clustering_solve_def split: if_splits)

lemma consensus_solve_samples:
  assumes "consensus_clustering_solve w ms ps fine = Inr P"
  shows "partition_samples P = common_samples ps"
  using assms consensus_solve_eq [OF consensus_solve_cases [OF assms], of w fine]
  by (auto simp: decode_def)

text \<open>A solution that satisfies the hard constraints joins no pair a fine modality separates.\<close>

lemma hard_constraints_separate:
  assumes h: "hard_constraints ps fine s x" and d: "distinct s"
    and e: "(n, Q) \<in> set ps" "n \<in> set fine"
    and ij: "i \<in> set s" "j \<in> set s" "\<not> co_clustered Q i j"
  shows "\<not> same x i j"
proof -
  have ne: "i \<noteq> j" using ij(3) by (auto simp: co_clustered_def)
  have all: "keeps_apart Q x p" if "p \<in> set (combinations2 s)" for p
    using h e that by (auto simp: hard_constraints_def list_all_iff)
  from combinations2_total [OF ij(1,2) ne] show ?thesis
  proof
    assume "(i, j) \<in> set (combinations2 s)"
    then show ?thesis using all [of "(i, j)"] ij(3) by (simp add: keeps_apart_def)
  next
    assume "(j, i) \<in> set (combinations2 s)"
    then have "co_clustered Q j i \<or> \<not> same x j i"
      using all [of "(j, i)"] by (simp add: keeps_apart_def)
    then show ?thesis using ij(3) co_clustered_sym [of Q i j] same_sym [of x i j] by simp
  qed
qed

text \<open>
  C1. When the inputs are over one sample set the consensus solver returns a partition;
  and in the partition it returns, two samples that a modality named in the list of fine
  modalities separates are never co-clustered, whatever the weights of the modalities.
\<close>

theorem consensus_respects_fine:
  "(aligned ms ps \<longrightarrow> (\<exists>P. consensus_clustering_solve w ms ps fine = Inr P)) \<and>
   (\<forall>P n Q i j. consensus_clustering_solve w ms ps fine = Inr P \<and>
      (n, Q) \<in> set ps \<and> n \<in> set fine \<and>
      i \<in> set (partition_samples P) \<and> j \<in> set (partition_samples P) \<and>
      \<not> co_clustered Q i j \<longrightarrow> \<not> co_clustered P i j)"
proof (intro conjI impI allI)
  assume "aligned ms ps"
  then show "\<exists>P. consensus_clustering_solve w ms ps fine = Inr P"
    using consensus_solve_eq [of ms ps w fine] by blast
next
  fix P n Q i j
  let ?s = "common_samples ps"
  let ?xs = "filter (\<lambda>x. list_all (transitivity x) (triples ?s))
             (filter (hard_constraints ps fine ?s) (candidates ?s))"
  let ?x = "arg_min_list (consensus_objective w ps ?s) ?xs"
  assume a: "consensus_clustering_solve w ms ps fine = Inr P \<and>
      (n, Q) \<in> set ps \<and> n \<in> set fine \<and>
      i \<in> set (partition_samples P) \<and> j \<in> set (partition_samples P) \<and>
      \<not> co_clustered Q i j"
  then have "aligned ms ps" using consensus_solve_cases by blast
  then have P: "P = decode ?s ?x" using a consensus_solve_eq [of ms ps w fine] by simp
  have "?x \<in> set ?xs" by (rule arg_min_list_in) (rule consensus_feasible_nonempty)
  then have tr: "list_all (transitivity ?x) (triples ?s)" and h: "hard_constraints ps fine ?s ?x"
    by simp_all
  have i: "i \<in> set ?s" and j: "j \<in> set ?s" using a P by (simp_all add: decode_def)
  have "\<not> same ?x i j"
    using hard_constraints_separate [OF h common_samples_distinct _ _ i j] a by blast
  moreover have "i \<noteq> j" using a by (auto simp: co_clustered_def)
  ultimately show "\<not> co_clustered P i j"
    unfolding P using co_clustered_decode [OF tr i j] by simp
qed

text \<open>
  The example of section 8: the fine modality X separates A and B, the modality Y, of
  weight 1000, joins them.
\<close>

theorem consensus_respects_fine_witness:
  "\<exists>P. consensus_clustering_solve (\<lambda>n. if n = ''Y'' then 1000 else 1) []
          [(''X'', apart), (''Y'', together)] [''X''] = Inr P \<and>
        partition_samples P = [''A'', ''B''] \<and> \<not> co_clustered P ''A'' ''B''"
proof -
  let ?w = "\<lambda>n. if n = ''Y'' then 1000 else (1::real)"
  let ?ps = "[(''X'', apart), (''Y'', together)]"
  note fine = consensus_respects_fine [of "[]" ?ps ?w "[''X'']"]
  have s: "common_samples ?ps = [''A'', ''B'']"
    by (simp add: common_samples_def sample_list_def apart_def)
  have "aligned [] ?ps"
    by (simp add: aligned_def s) (simp add: apart_def together_def)
  then obtain P where P: "consensus_clustering_solve ?w [] ?ps [''X''] = Inr P"
    using fine by blast
  have samples: "partition_samples P = [''A'', ''B'']"
    using consensus_solve_samples [OF P] s by simp
  have "\<not> co_clustered apart ''A'' ''B''"
    by (simp add: co_clustered_def apart_def)
  then have "\<not> co_clustered P ''A'' ''B''"
    using fine P samples by (auto simp del: co_clustered_def)
  with P samples show ?thesis by blast
qed









subsection \<open>Modalities of weight zero\<close>










end
